theory Spec2Isabelle
  imports Main "HOL-Library.Word" "HOL-Library.Signed_Division"
begin

section \<open>Values of the TypeScript sources\<close>

text \<open>
  The scripts compute with two numeric types. A \<open>bigint\<close> is an unbounded integer and is
  modelled as \<open>int\<close>; its division truncates towards zero (\<open>sdiv\<close>). A \<open>number\<close> is a
  double. Every number the scripts hold is an integer or \<open>NaN\<close>: it comes from \<open>parseInt\<close>,
  from \<open>Number\<close> of a bigint, or from a sum, difference or product of such. So a number is
  modelled as an integer or \<open>NaN\<close>, and each operation rounds its exact result to the
  nearest double (\<open>toNumber\<close> below). The one quotient the scripts form is consumed at once
  by \<open>BigInt\<close> and is modelled together with that conversion (\<open>bigIntOfQuotient\<close> below).
  Every comparison with \<open>NaN\<close> is false. Magnitudes stay below \<open>2 ^ 1024\<close>, where doubles
  are finite.
\<close>

datatype number = Finite int | NaN

fun js_lt :: "number \<Rightarrow> number \<Rightarrow> bool" where
  "js_lt (Finite a) (Finite b) = (a < b)"
| "js_lt _ _ = False"

fun js_ge :: "number \<Rightarrow> number \<Rightarrow> bool" where
  "js_ge (Finite a) (Finite b) = (a \<ge> b)"
| "js_ge _ _ = False"

text \<open>
  How a script ends without submitting a transaction. \<open>RangeError\<close> and \<open>SyntaxError\<close> are
  the JavaScript exceptions of \<open>Buffer.write*\<close> and \<open>BigInt\<close>, caught and printed by the
  scripts. The others are the places where a script prints a message and calls
  \<open>process.exit(1)\<close>: a required variable (\<open>NFT_TXID\<close>, \<open>PT_TXID\<close>, \<open>YT_TXID\<close>) is not
  set; "No minting NFT found in contract"; "No UTXOs found in user wallet"; "No UTXO with
  enough balance"; "NFT not found at"; "Contract does not have enough BCH to unstake!";
  "Cannot redeem yet!".
\<close>

datatype error =
    RangeError
  | SyntaxError
  | MissingEnv
  | NoMintingNft
  | NoWalletUtxos
  | NoFundingUtxo
  | UtxoNotFound
  | InsufficientReserve
  | NotYetMatured

text \<open>Sequencing of fallible steps: the first error ends the computation.\<close>

definition bindE :: "error + 'a \<Rightarrow> ('a \<Rightarrow> error + 'b) \<Rightarrow> error + 'b" where
  "bindE r f = (case r of Inl e \<Rightarrow> Inl e | Inr x \<Rightarrow> f x)"

subsection \<open>Rounding to a double\<close>

fun bitLength :: "nat \<Rightarrow> nat" where
  "bitLength n = (if n = 0 then 0 else Suc (bitLength (n div 2)))"

declare bitLength.simps [simp del]

text \<open>
  \<open>Number(b)\<close> is the double nearest to \<open>b\<close>, ties to the even mantissa: exact below
  \<open>2 ^ 53\<close>, and above it the value keeps 53 significant bits. The result is again an
  integer.
\<close>

definition toNumber :: "int \<Rightarrow> int" where
  "toNumber b =
     (if \<bar>b\<bar> < 2 ^ 53 then b
      else
        let e = bitLength (nat \<bar>b\<bar>) - 53;
            q = \<bar>b\<bar> div 2 ^ e;
            r = \<bar>b\<bar> mod 2 ^ e;
            h = 2 ^ (e - 1);
            q' = (if r > h \<or> (r = h \<and> odd q) then q + 1 else q)
        in sgn b * (q' * 2 ^ e))"

text \<open>Sum, difference and product of two integral doubles: the exact result, rounded.\<close>

definition num_add :: "int \<Rightarrow> int \<Rightarrow> int" where
  "num_add x y = toNumber (x + y)"

definition num_sub :: "int \<Rightarrow> int \<Rightarrow> int" where
  "num_sub x y = toNumber (x - y)"

fun js_mul :: "number \<Rightarrow> number \<Rightarrow> number" where
  "js_mul (Finite a) (Finite b) = Finite (toNumber (a * b))"
| "js_mul _ _ = NaN"

text \<open>
  \<open>BigInt(x / d)\<close> for a number \<open>x\<close> and a positive integral constant \<open>d\<close>. The
  quotient of the two doubles is the rational \<open>x / d\<close> rounded to 53 significant bits,
  ties to even: with \<open>l\<close> the binary exponent of the quotient, \<open>x / d\<close> is scaled by
  \<open>2 ^ (52 - l)\<close>, rounded to the integer \<open>q'\<close>, and the result is \<open>q' * 2 ^ (l - 52)\<close>.
  \<open>BigInt\<close> of a number that is not an integer, or is \<open>NaN\<close>, throws a \<open>RangeError\<close>.
\<close>

fun bigIntOfQuotient :: "number \<Rightarrow> int \<Rightarrow> error + int" where
  "bigIntOfQuotient (Finite x) d =
     (if x = 0 then Inr 0
      else
        let a = \<bar>x\<bar>;
            k = int (bitLength (nat a)) - int (bitLength (nat d));
            l = (if a * 2 ^ nat (- k) \<ge> d * 2 ^ nat k then k else k - 1);
            e = l - 52;
            n = a * 2 ^ nat (- e);
            m = d * 2 ^ nat e;
            q = n div m;
            r = n mod m;
            q' = (if 2 * r > m \<or> (2 * r = m \<and> odd q) then q + 1 else q)
        in if e \<ge> 0 then Inr (sgn x * (q' * 2 ^ nat e))
           else if 2 ^ nat (- e) dvd q' then Inr (sgn x * (q' div 2 ^ nat (- e)))
           else Inl RangeError)"
| "bigIntOfQuotient NaN d = Inl RangeError"

declare bigIntOfQuotient.simps(1) [simp del]

section \<open>Buffers and hex strings\<close>

text \<open>
  A \<open>Buffer\<close> is a list of bytes. \<open>beBytes k v\<close> and \<open>leBytes k v\<close> are the \<open>k\<close> low
  bytes of \<open>v\<close>, most and least significant byte first: each store into the buffer keeps
  the low 8 bits, each \<open>>>> 8\<close> drops them.
\<close>

type_synonym byte = "8 word"

fun beBytes :: "nat \<Rightarrow> nat \<Rightarrow> byte list" where
  "beBytes 0 v = []"
| "beBytes (Suc k) v = beBytes k (v div 256) @ [of_nat v]"

fun leBytes :: "nat \<Rightarrow> nat \<Rightarrow> byte list" where
  "leBytes 0 v = []"
| "leBytes (Suc k) v = of_nat v # leBytes k (v div 256)"

text \<open>
  \<open>buf.writeUInt32BE(value)\<close> on a 4-byte buffer: a \<open>RangeError\<close> outside
  \<open>[0, 2^32 - 1]\<close>; \<open>NaN\<close> passes the range check (both comparisons are false) and is
  stored as zero bytes. \<open>writeBigUInt64BE\<close> and \<open>writeBigUInt64LE\<close> on an 8-byte buffer:
  a \<open>RangeError\<close> outside \<open>[0, 2^64 - 1]\<close>.
\<close>

fun writeUInt32BE :: "number \<Rightarrow> error + byte list" where
  "writeUInt32BE (Finite v) =
     (if v > 4294967295 \<or> v < 0 then Inl RangeError else Inr (beBytes 4 (nat v)))"
| "writeUInt32BE NaN = Inr (beBytes 4 0)"

definition writeBigUInt64BE :: "int \<Rightarrow> error + byte list" where
  "writeBigUInt64BE v =
     (if v > 18446744073709551615 \<or> v < 0 then Inl RangeError else Inr (beBytes 8 (nat v)))"

definition writeBigUInt64LE :: "int \<Rightarrow> error + byte list" where
  "writeBigUInt64LE v =
     (if v > 18446744073709551615 \<or> v < 0 then Inl RangeError else Inr (leBytes 8 (nat v)))"

text \<open>\<open>buf.toString('hex')\<close>: two lower-case digits per byte.\<close>

definition toHexByte :: "byte \<Rightarrow> string" where
  "toHexByte b =
     [''0123456789abcdef'' ! (unat b div 16), ''0123456789abcdef'' ! (unat b mod 16)]"

definition toHex :: "byte list \<Rightarrow> string" where
  "toHex bs = concat (map toHexByte bs)"

text \<open>Reading hex digits, upper or lower case, most significant first.\<close>

definition hexDigitVal :: "char \<Rightarrow> nat option" where
  "hexDigitVal c =
     (let n = (of_char c :: nat)
      in if 48 \<le> n \<and> n \<le> 57 then Some (n - 48)
         else if 97 \<le> n \<and> n \<le> 102 then Some (n - 87)
         else if 65 \<le> n \<and> n \<le> 70 then Some (n - 55)
         else None)"

fun parseHexDigits :: "nat \<Rightarrow> string \<Rightarrow> nat option" where
  "parseHexDigits acc [] = Some acc"
| "parseHexDigits acc (c # cs) =
     (case hexDigitVal c of None \<Rightarrow> None | Some d \<Rightarrow> parseHexDigits (16 * acc + d) cs)"

text \<open>White space of the ASCII range: tab, line feed, vertical tab, form feed, return, space.\<close>

definition isWhiteSpace :: "char \<Rightarrow> bool" where
  "isWhiteSpace c = ((of_char c :: nat) \<in> {9, 10, 11, 12, 13, 32})"

text \<open>
  \<open>BigInt('0x' + s)\<close>: after trimming, the literal must be \<open>0x\<close> followed by at least one
  hex digit and nothing else; otherwise a \<open>SyntaxError\<close>. (The string starts with \<open>0\<close>, so
  only trailing white space can be trimmed.)
\<close>

definition bigIntOfHex :: "string \<Rightarrow> error + int" where
  "bigIntOfHex s =
     (let t = rev (dropWhile isWhiteSpace (rev s))
      in if t = [] then Inl SyntaxError
         else case parseHexDigits 0 t of None \<Rightarrow> Inl SyntaxError | Some v \<Rightarrow> Inr (int v))"

text \<open>
  \<open>parseInt(s, 16)\<close>: leading white space, an optional sign and an optional \<open>0x\<close> are
  skipped, then the longest run of hex digits is read; \<open>NaN\<close> when that run is empty.
\<close>

definition parseInt16 :: "string \<Rightarrow> number" where
  "parseInt16 s =
     (let s1 = dropWhile isWhiteSpace s;
          neg = (s1 \<noteq> [] \<and> hd s1 = CHR ''-'');
          s2 = (if s1 \<noteq> [] \<and> (hd s1 = CHR ''-'' \<or> hd s1 = CHR ''+'') then tl s1 else s1);
          s3 = (if take 2 s2 = ''0x'' \<or> take 2 s2 = ''0X'' then drop 2 s2 else s2);
          ds = takeWhile (\<lambda>c. hexDigitVal c \<noteq> None) s3
      in if ds = [] then NaN
         else case parseHexDigits 0 ds of
                None \<Rightarrow> NaN
              | Some v \<Rightarrow> Finite (toNumber (if neg then - int v else int v)))"

text \<open>\<open>s.slice(a, b)\<close> for \<open>0 \<le> a \<le> b\<close>; both ends are clamped to the length.\<close>

definition slice :: "string \<Rightarrow> nat \<Rightarrow> nat \<Rightarrow> string" where
  "slice s a b = take (b - a) (drop a s)"

section \<open>Commitment codecs\<close>

subsection \<open>Position commitment (dex.ts)\<close>

record positionData =
  pos_tickLower :: number
  pos_tickUpper :: number
  pos_liquidity :: int

definition buildPositionCommitment :: "number \<Rightarrow> number \<Rightarrow> int \<Rightarrow> error + string" where
  "buildPositionCommitment tickLower tickUpper liquidity =
     bindE (writeUInt32BE tickLower) (\<lambda>tickLowerBytes.
     bindE (writeUInt32BE tickUpper) (\<lambda>tickUpperBytes.
     bindE (writeBigUInt64BE liquidity) (\<lambda>liquidityBytes.
       Inr (toHex tickLowerBytes @ toHex tickUpperBytes @ toHex liquidityBytes))))"

definition parsePositionCommitment :: "string \<Rightarrow> error + positionData" where
  "parsePositionCommitment commitment =
     (let tickLower = parseInt16 (slice commitment 0 8);
          tickUpper = parseInt16 (slice commitment 8 16)
      in bindE (bigIntOfHex (slice commitment 16 32)) (\<lambda>liquidity.
           Inr \<lparr>pos_tickLower = tickLower, pos_tickUpper = tickUpper,
                pos_liquidity = liquidity\<rparr>))"

subsection \<open>PT and YT commitments (yield-split.ts)\<close>

record ptData =
  pt_principal :: int
  pt_expiry :: number

record ytData =
  yt_yieldAccrued :: int
  yt_expiry :: number

definition parsePTCommitment :: "string \<Rightarrow> error + ptData" where
  "parsePTCommitment commitment =
     bindE (bigIntOfHex (slice commitment 0 16)) (\<lambda>principal'.
       let expiry = parseInt16 (slice commitment 16 24)
       in Inr \<lparr>pt_principal = principal', pt_expiry = expiry\<rparr>)"

definition parseYTCommitment :: "string \<Rightarrow> error + ytData" where
  "parseYTCommitment commitment =
     bindE (bigIntOfHex (slice commitment 0 16)) (\<lambda>yieldAccrued.
       let expiry = parseInt16 (slice commitment 16 24)
       in Inr \<lparr>yt_yieldAccrued = yieldAccrued, yt_expiry = expiry\<rparr>)"

definition buildPTCommitment :: "int \<Rightarrow> number \<Rightarrow> error + string" where
  "buildPTCommitment principal' expiry =
     bindE (writeBigUInt64BE principal') (\<lambda>principalBytes.
     bindE (writeUInt32BE expiry) (\<lambda>expiryBytes.
       Inr (toHex principalBytes @ toHex expiryBytes)))"

definition buildYTCommitment :: "int \<Rightarrow> number \<Rightarrow> error + string" where
  "buildYTCommitment yieldAccrued expiry =
     bindE (writeBigUInt64BE yieldAccrued) (\<lambda>yieldBytes.
     bindE (writeUInt32BE expiry) (\<lambda>expiryBytes.
       Inr (toHex yieldBytes @ toHex expiryBytes)))"

section \<open>Ledger data\<close>

text \<open>
  What the scripts read from the chain-query service and hand to the transaction builder.
  A UTXO carries satoshis and optionally a token; a token optionally carries an NFT with a
  capability and a hex commitment. A transaction request names the contract function, the
  inputs given to \<open>.from\<close> and the outputs given to \<open>.to\<close>. Signing, the covenant script and
  the broadcast behind \<open>.send()\<close> are outside the sources and are not modelled: the result
  of a script is the transaction it submits, or the error that stops it before.
\<close>

datatype capability = CapNone | CapMutable | CapMinting

record nft =
  nft_capability :: capability
  nft_commitment :: string

record token =
  tok_category :: string
  tok_amount :: int
  tok_nft :: "nft option"

record utxo =
  utxo_txid :: string
  utxo_vout :: int
  utxo_satoshis :: int
  utxo_token :: "token option"

record recipient =
  out_to :: string
  out_amount :: int
  out_token :: "token option"

datatype call =
    Stake
  | Unstake
  | Merge
  | RedeemPT number
  | ClaimYield number number

record tx =
  tx_call :: call
  tx_from :: "utxo list"
  tx_to :: "recipient list"

text \<open>
  The optional chains \<open>u.token?.category\<close>, \<open>u.token?.nft?.capability\<close> and
  \<open>u.token?.nft?.commitment || ''\<close>, and \<open>u.token!.category!\<close>, which the scripts only
  evaluate on a UTXO that \<open>find\<close> selected by its NFT capability, so that the token exists.
\<close>

definition nftOf :: "utxo \<Rightarrow> nft option" where
  "nftOf u = (case utxo_token u of None \<Rightarrow> None | Some t \<Rightarrow> tok_nft t)"

definition categoryOf :: "utxo \<Rightarrow> string option" where
  "categoryOf u = map_option tok_category (utxo_token u)"

definition capabilityOf :: "utxo \<Rightarrow> capability option" where
  "capabilityOf u = map_option nft_capability (nftOf u)"

definition commitmentOf :: "utxo \<Rightarrow> string" where
  "commitmentOf u = (case nftOf u of None \<Rightarrow> [] | Some n \<Rightarrow> nft_commitment n)"

definition category :: "utxo \<Rightarrow> string" where
  "category u = (case utxo_token u of None \<Rightarrow> [] | Some t \<Rightarrow> tok_category t)"

text \<open>The input object every script builds for the NFT it spends.\<close>

definition nftInput :: "utxo \<Rightarrow> utxo" where
  "nftInput u =
     \<lparr>utxo_txid = utxo_txid u, utxo_vout = utxo_vout u, utxo_satoshis = utxo_satoshis u,
      utxo_token = Some \<lparr>tok_category = category u, tok_amount = 0,
        tok_nft = Some \<lparr>nft_capability = CapNone, nft_commitment = commitmentOf u\<rparr>\<rparr>\<rparr>"

text \<open>The predicate of \<open>userUtxos.find\<close> in yield-split.ts.\<close>

definition isNftAt :: "string \<Rightarrow> number \<Rightarrow> utxo \<Rightarrow> bool" where
  "isNftAt txid vout u =
     (utxo_txid u = txid \<and> Finite (utxo_vout u) = vout \<and> capabilityOf u = Some CapNone)"

text \<open>The predicate of \<open>contractUtxos.find\<close> in stake.ts and unstake.ts.\<close>

definition isMinting :: "utxo \<Rightarrow> bool" where
  "isMinting u =
     ((case categoryOf u of None \<Rightarrow> False | Some c \<Rightarrow> c \<noteq> [])
      \<and> capabilityOf u = Some CapMinting)"

section \<open>Liquid staking (stake.ts, unstake.ts)\<close>

text \<open>
  \<open>main\<close> of stake.ts, from the parsed \<open>STAKE_AMOUNT\<close> on. The commitment of the receipt
  NFT is written with \<open>writeBigUInt64LE\<close>.
\<close>

definition stake_main :: "utxo list \<Rightarrow> utxo list \<Rightarrow> int \<Rightarrow> string \<Rightarrow> string \<Rightarrow> error + tx" where
  "stake_main contractUtxos userUtxos stakeAmount ownerAddress tokenAddress =
     (case find isMinting contractUtxos of
        None \<Rightarrow> Inl NoMintingNft
      | Some mintingUtxo \<Rightarrow>
          if userUtxos = [] then Inl NoWalletUtxos
          else
            let minRequired = num_add (toNumber stakeAmount) 2000
            in case find (\<lambda>u. toNumber (utxo_satoshis u) \<ge> minRequired) userUtxos of
                 None \<Rightarrow> Inl NoFundingUtxo
               | Some fundingUtxo \<Rightarrow>
                   bindE (writeBigUInt64LE stakeAmount) (\<lambda>stakeAmountBytes.
                     let commitment = toHex stakeAmountBytes
                     in Inr \<lparr>tx_call = Stake,
                          tx_from = [\<lparr>utxo_txid = utxo_txid fundingUtxo,
                                      utxo_vout = utxo_vout fundingUtxo,
                                      utxo_satoshis = utxo_satoshis fundingUtxo,
                                      utxo_token = None\<rparr>],
                          tx_to =
                            [\<lparr>out_to = tokenAddress,
                              out_amount = num_add (toNumber (utxo_satoshis mintingUtxo))
                                                   (toNumber stakeAmount),
                              out_token = Some \<lparr>tok_category = category mintingUtxo,
                                tok_amount = 0,
                                tok_nft = Some \<lparr>nft_capability = CapMinting,
                                                 nft_commitment = []\<rparr>\<rparr>\<rparr>,
                             \<lparr>out_to = ownerAddress,
                              out_amount = 1000,
                              out_token = Some \<lparr>tok_category = category mintingUtxo,
                                tok_amount = 0,
                                tok_nft = Some \<lparr>nft_capability = CapNone,
                                                 nft_commitment = commitment\<rparr>\<rparr>\<rparr>]\<rparr>))"

text \<open>
  \<open>main\<close> of unstake.ts. The staked amount is read from the receipt commitment with
  \<open>BigInt('0x' + commitment)\<close>, that is, most significant byte first.
\<close>

definition unstake_main ::
    "utxo list \<Rightarrow> utxo list \<Rightarrow> string \<Rightarrow> number \<Rightarrow> string \<Rightarrow> string \<Rightarrow> error + tx" where
  "unstake_main contractUtxos userUtxos nftTxId nftVout ownerAddress tokenAddress =
     (if nftTxId = [] then Inl MissingEnv
      else case find isMinting contractUtxos of
        None \<Rightarrow> Inl NoMintingNft
      | Some mintingUtxo \<Rightarrow>
          (case find (\<lambda>u. utxo_txid u = nftTxId \<and> Finite (utxo_vout u) = nftVout
                        \<and> categoryOf u = categoryOf mintingUtxo
                        \<and> capabilityOf u = Some CapNone) userUtxos of
             None \<Rightarrow> Inl UtxoNotFound
           | Some nftUtxo \<Rightarrow>
               let commitment = commitmentOf nftUtxo
               in bindE (bigIntOfHex commitment) (\<lambda>stakedAmount.
                    if toNumber (utxo_satoshis mintingUtxo) < toNumber stakedAmount
                    then Inl InsufficientReserve
                    else Inr \<lparr>tx_call = Unstake,
                           tx_from = [nftInput nftUtxo],
                           tx_to =
                             [\<lparr>out_to = tokenAddress,
                               out_amount = num_sub (toNumber (utxo_satoshis mintingUtxo))
                                                    (toNumber stakedAmount),
                               out_token = Some \<lparr>tok_category = category mintingUtxo,
                                 tok_amount = 0,
                                 tok_nft = Some \<lparr>nft_capability = CapMinting,
                                                  nft_commitment = []\<rparr>\<rparr>\<rparr>,
                              \<lparr>out_to = ownerAddress,
                               out_amount = stakedAmount,
                               out_token = None\<rparr>]\<rparr>)))"

text \<open>
  The ledger's part between two scripts: once a transaction with id \<open>txid\<close> is confirmed,
  its \<open>i\<close>-th output is the UTXO \<open>(txid, i)\<close> with the output's value and token.
\<close>

definition outputUtxo :: "string \<Rightarrow> nat \<Rightarrow> recipient \<Rightarrow> utxo" where
  "outputUtxo txid i out =
     \<lparr>utxo_txid = txid, utxo_vout = int i, utxo_satoshis = out_amount out,
      utxo_token = out_token out\<rparr>"

section \<open>Yield splitting (yield-split.ts)\<close>

definition handleMerge ::
    "utxo list \<Rightarrow> string \<Rightarrow> number \<Rightarrow> string \<Rightarrow> number \<Rightarrow> string \<Rightarrow> error + tx" where
  "handleMerge userUtxos ptTxId ptVout ytTxId ytVout ownerAddress =
     (if ptTxId = [] \<or> ytTxId = [] then Inl MissingEnv
      else case (find (isNftAt ptTxId ptVout) userUtxos, find (isNftAt ytTxId ytVout) userUtxos) of
        (Some ptUtxo, Some ytUtxo) \<Rightarrow>
          bindE (parsePTCommitment (commitmentOf ptUtxo)) (\<lambda>ptData.
          bindE (parseYTCommitment (commitmentOf ytUtxo)) (\<lambda>ytData.
          bindE (writeBigUInt64BE (pt_principal ptData)) (\<lambda>lstBchCommitment.
            Inr \<lparr>tx_call = Merge,
                 tx_from = [nftInput ptUtxo, nftInput ytUtxo],
                 tx_to =
                   [\<lparr>out_to = ownerAddress,
                     out_amount = 1000,
                     out_token = Some \<lparr>tok_category = category ptUtxo,
                       tok_amount = 0,
                       tok_nft = Some \<lparr>nft_capability = CapNone,
                                        nft_commitment = toHex lstBchCommitment\<rparr>\<rparr>\<rparr>]\<rparr>)))
      | _ \<Rightarrow> Inl UtxoNotFound)"

definition handleRedeemPT ::
    "utxo list \<Rightarrow> string \<Rightarrow> number \<Rightarrow> number \<Rightarrow> string \<Rightarrow> error + tx" where
  "handleRedeemPT userUtxos ptTxId ptVout currentTime ownerAddress =
     (if ptTxId = [] then Inl MissingEnv
      else case find (isNftAt ptTxId ptVout) userUtxos of
        None \<Rightarrow> Inl UtxoNotFound
      | Some ptUtxo \<Rightarrow>
          bindE (parsePTCommitment (commitmentOf ptUtxo)) (\<lambda>ptData.
            if js_lt currentTime (pt_expiry ptData) then Inl NotYetMatured
            else Inr \<lparr>tx_call = RedeemPT currentTime,
                   tx_from = [nftInput ptUtxo],
                   tx_to = [\<lparr>out_to = ownerAddress,
                             out_amount = pt_principal ptData,
                             out_token = None\<rparr>]\<rparr>))"

text \<open>
  Before expiry the new yield is \<open>yieldAccrued + BigInt(Number(elapsed) * yieldRate / 10000)\<close>
  with \<open>elapsed = currentTime\<close>.
\<close>

definition handleClaimYield ::
    "utxo list \<Rightarrow> string \<Rightarrow> number \<Rightarrow> number \<Rightarrow> number \<Rightarrow> string \<Rightarrow> error + tx" where
  "handleClaimYield userUtxos ytTxId ytVout currentTime yieldRate ownerAddress =
     (if ytTxId = [] then Inl MissingEnv
      else case find (isNftAt ytTxId ytVout) userUtxos of
        None \<Rightarrow> Inl UtxoNotFound
      | Some ytUtxo \<Rightarrow>
          bindE (parseYTCommitment (commitmentOf ytUtxo)) (\<lambda>ytData.
            if js_ge currentTime (yt_expiry ytData)
            then Inr \<lparr>tx_call = ClaimYield currentTime yieldRate,
                   tx_from = [nftInput ytUtxo],
                   tx_to = [\<lparr>out_to = ownerAddress,
                             out_amount = yt_yieldAccrued ytData,
                             out_token = None\<rparr>]\<rparr>
            else
              let elapsed = currentTime
              in bindE (bigIntOfQuotient (js_mul elapsed yieldRate) 10000) (\<lambda>accrued.
                 let newYieldAccrued = yt_yieldAccrued ytData + accrued
                 in bindE (buildYTCommitment newYieldAccrued (yt_expiry ytData)) (\<lambda>newYtCommitment.
                      Inr \<lparr>tx_call = ClaimYield currentTime yieldRate,
                           tx_from = [nftInput ytUtxo],
                           tx_to =
                             [\<lparr>out_to = ownerAddress,
                               out_amount = 1000,
                               out_token = Some \<lparr>tok_category = category ytUtxo,
                                 tok_amount = 0,
                                 tok_nft = Some \<lparr>nft_capability = CapNone,
                                                  nft_commitment = newYtCommitment\<rparr>\<rparr>\<rparr>]\<rparr>))))"

text \<open>
  Repeated claims on one YT, one per pair of transaction id and \<open>CURRENT_TIME\<close>: each
  successful claim is confirmed under its transaction id, and its first output is the YT
  that the next claim spends. The result lists the UTXOs created along the way.
\<close>

fun claimSequence :: "utxo \<Rightarrow> (string \<times> int) list \<Rightarrow> number \<Rightarrow> string \<Rightarrow> error + utxo list" where
  "claimSequence yt [] yieldRate ownerAddress = Inr []"
| "claimSequence yt ((txid, currentTime) # rest) yieldRate ownerAddress =
     (case handleClaimYield [yt] (utxo_txid yt) (Finite (utxo_vout yt)) (Finite currentTime)
             yieldRate ownerAddress of
        Inl e \<Rightarrow> Inl e
      | Inr t \<Rightarrow>
          (case tx_to t of
             [] \<Rightarrow> Inr []
           | out # _ \<Rightarrow>
               (case claimSequence (outputUtxo txid 0 out) rest yieldRate ownerAddress of
                  Inl e \<Rightarrow> Inl e
                | Inr yts \<Rightarrow> Inr (outputUtxo txid 0 out # yts))))"

section \<open>AMM (dex.ts)\<close>

definition calculateLiquidity :: "int \<Rightarrow> int \<Rightarrow> int" where
  "calculateLiquidity amount0 amount1 = (if amount0 < amount1 then amount0 else amount1)"

text \<open>
  \<open>calculateSwapOutput(amountIn, zeroForOne, fee = 30)\<close>; \<open>fee\<close> is an integral number, so
  \<open>BigInt(fee)\<close> is that integer.
\<close>

definition calculateSwapOutput :: "int \<Rightarrow> bool \<Rightarrow> int \<Rightarrow> int" where
  "calculateSwapOutput amountIn zeroForOne fee =
     (let feeAmount = (amountIn * fee) sdiv 10000;
          amountAfterFee = amountIn - feeAmount
      in amountAfterFee)"

text \<open>
  The \<open>add\<close> case of \<open>main\<close>, from the parsed \<open>AMOUNT0\<close>, \<open>AMOUNT1\<close>, \<open>TICK_LOWER\<close> and
  \<open>TICK_UPPER\<close> on; its outputs are a value output to the contract and the position NFT.
\<close>

datatype dexCall = AddLiquidity int int number number

datatype dexOutput =
    ValueTo string int
  | NftTo string string string

record dexTx =
  dex_call :: dexCall
  dex_to :: "dexOutput list"
  dex_sender :: string

definition main_add :: "int \<Rightarrow> int \<Rightarrow> number \<Rightarrow> number \<Rightarrow> string \<Rightarrow> string \<Rightarrow> error + dexTx" where
  "main_add amount0 amount1 tickLower tickUpper ownerAddress contractAddress =
     (let liquidity = calculateLiquidity amount0 amount1
      in bindE (buildPositionCommitment tickLower tickUpper liquidity) (\<lambda>commitment.
           Inr \<lparr>dex_call = AddLiquidity amount0 amount1 tickLower tickUpper,
                dex_to = [ValueTo contractAddress 1000,
                          NftTo ownerAddress ''position'' commitment],
                dex_sender = ownerAddress\<rparr>))"

section \<open>Evaluation and basic facts\<close>

lemma bindE_simps [simp]: "bindE (Inl e) f = Inl e" "bindE (Inr x) f = f x"
  by (simp_all add: bindE_def)

lemma beBytes_numeral:
  "beBytes (numeral n) v = beBytes (pred_numeral n) (v div 256) @ [of_nat v]"
  unfolding numeral_eq_Suc [of n] by (rule beBytes.simps(2))

lemma leBytes_numeral:
  "leBytes (numeral n) v = of_nat v # leBytes (pred_numeral n) (v div 256)"
  unfolding numeral_eq_Suc [of n] by (rule leBytes.simps(2))

lemma toNumber_exact: "\<bar>b\<bar> < 2 ^ 53 \<Longrightarrow> toNumber b = b"
  by (simp add: toNumber_def)

lemmas codec_eval =
  beBytes_numeral leBytes_numeral writeBigUInt64BE_def writeBigUInt64LE_def toHex_def
  toHexByte_def hexDigitVal_def isWhiteSpace_def bigIntOfHex_def parseInt16_def slice_def
  toNumber_exact buildPositionCommitment_def parsePositionCommitment_def buildPTCommitment_def
  parsePTCommitment_def buildYTCommitment_def parseYTCommitment_def

lemmas ledger_eval =
  nftOf_def categoryOf_def capabilityOf_def commitmentOf_def category_def nftInput_def
  isNftAt_def isMinting_def outputUtxo_def num_add_def num_sub_def


section \<open>Number arithmetic\<close>

lemma toNumber_nonneg: "0 \<le> b \<Longrightarrow> 0 \<le> toNumber b"
proof -
  assume b: "0 \<le> b"
  have "0 \<le> \<bar>b\<bar> div 2 ^ e" for e :: nat
    by (simp add: pos_imp_zdiv_nonneg_iff)
  then show ?thesis
    using b by (auto simp: toNumber_def Let_def sgn_if intro!: mult_nonneg_nonneg)
qed

lemma bigIntOfQuotient_nonneg:
  assumes "0 \<le> x" and "0 < d" and "bigIntOfQuotient (Finite x) d = Inr v"
  shows "0 \<le> v"
proof (cases "x = 0")
  case True
  then show ?thesis using assms(3) by (simp add: bigIntOfQuotient.simps)
next
  case False
  define a where "a = \<bar>x\<bar>"
  define k where "k = int (bitLength (nat a)) - int (bitLength (nat d))"
  define l where "l = (if a * 2 ^ nat (- k) \<ge> d * 2 ^ nat k then k else k - 1)"
  define e where "e = l - 52"
  define n where "n = a * 2 ^ nat (- e)"
  define m where "m = d * 2 ^ nat e"
  define q where "q = n div m"
  define r where "r = n mod m"
  define q' where "q' = (if 2 * r > m \<or> (2 * r = m \<and> odd q) then q + 1 else q)"
  have unfold: "bigIntOfQuotient (Finite x) d
      = (if e \<ge> 0 then Inr (sgn x * (q' * 2 ^ nat e))
         else if 2 ^ nat (- e) dvd q' then Inr (sgn x * (q' div 2 ^ nat (- e)))
         else Inl RangeError)"
    unfolding bigIntOfQuotient.simps Let_def if_not_P [OF False]
    unfolding a_def [symmetric]
    unfolding k_def [symmetric]
    unfolding l_def [symmetric]
    unfolding e_def [symmetric]
    unfolding n_def [symmetric] m_def [symmetric]
    unfolding q_def [symmetric] r_def [symmetric]
    unfolding q'_def [symmetric]
    by (rule refl)
  have "0 \<le> n" by (simp add: n_def a_def)
  moreover have "0 < m" using assms(2) by (simp add: m_def)
  ultimately have "0 \<le> q" by (simp add: q_def pos_imp_zdiv_nonneg_iff)
  then have q': "0 \<le> q'" by (simp add: q'_def)
  then have "0 \<le> q' * 2 ^ nat e" and "0 \<le> q' div 2 ^ nat (- e)"
    by (simp_all add: pos_imp_zdiv_nonneg_iff)
  moreover have "sgn x = 1" using assms(1) False by simp
  ultimately show ?thesis
    using assms(3) unfolding unfold by (auto split: if_splits)
qed

lemma bitLength_bound: "n < 2 ^ j \<Longrightarrow> bitLength n \<le> j"
proof (induction j arbitrary: n)
  case 0
  then show ?case by (simp add: bitLength.simps)
next
  case (Suc j)
  show ?case
  proof (cases "n = 0")
    case True
    then show ?thesis by (simp add: bitLength.simps)
  next
    case False
    have "n div 2 < 2 ^ j" using Suc.prems by auto
    then have "bitLength (n div 2) \<le> j" by (rule Suc.IH)
    then show ?thesis using False by (subst bitLength.simps) simp
  qed
qed

lemma round_core:
  fixes a N :: int
  assumes a: "0 < a" and N: "5000 < N"
  defines "q \<equiv> (a * N) div 10000" and "r \<equiv> (a * N) mod 10000"
  defines "q' \<equiv> (if 2 * r > 10000 \<or> (2 * r = 10000 \<and> odd q) then q + 1 else q)"
  shows "(N dvd q') = (10000 dvd a)" and "10000 dvd a \<Longrightarrow> q' div N = a div 10000"
proof -
  have split: "a * N = q * 10000 + r" and r: "0 \<le> r" "r < 10000"
    by (simp_all add: q_def r_def)
  show dvd: "(N dvd q') = (10000 dvd a)"
  proof
    assume "10000 dvd a"
    then obtain c where c: "a = 10000 * c" by (auto simp: dvd_def)
    then have "q = c * N" "r = 0" by (simp_all add: q_def r_def)
    then show "N dvd q'" by (simp add: q'_def)
  next
    assume "N dvd q'"
    then obtain c where c: "q' = N * c" by (auto simp: dvd_def)
    have near: "\<bar>a * N - q' * 10000\<bar> \<le> 5000"
      using split r by (auto simp: q'_def split: if_splits)
    have "a * N - q' * 10000 = N * (a - 10000 * c)"
      by (simp add: c algebra_simps)
    then have le: "N * \<bar>a - 10000 * c\<bar> \<le> 5000"
      using near N by (simp add: abs_mult)
    have "\<bar>a - 10000 * c\<bar> < 1"
    proof (rule ccontr)
      assume "\<not> \<bar>a - 10000 * c\<bar> < 1"
      then have "1 \<le> \<bar>a - 10000 * c\<bar>" by simp
      then have "N \<le> N * \<bar>a - 10000 * c\<bar>"
        using N by simp
      with le N show False by linarith
    qed
    then have "a = 10000 * c" by simp
    then show "10000 dvd a" by simp
  qed
  show "q' div N = a div 10000" if "10000 dvd a"
  proof -
    from that obtain c where c: "a = 10000 * c" by (auto simp: dvd_def)
    then have "q = c * N" "r = 0" by (simp_all add: q_def r_def)
    then have "q' = c * N" by (simp add: q'_def)
    then show ?thesis using N c by simp
  qed
qed

lemma bigIntOfQuotient_safe:
  assumes "\<bar>x\<bar> < 2 ^ 53"
  shows "bigIntOfQuotient (Finite x) 10000
           = (if 10000 dvd x then Inr (x div 10000) else Inl RangeError)"
proof (cases "x = 0")
  case True
  then show ?thesis by (simp add: bigIntOfQuotient.simps)
next
  case False
  define a where "a = \<bar>x\<bar>"
  define k where "k = int (bitLength (nat a)) - int (bitLength (nat 10000))"
  define l where "l = (if a * 2 ^ nat (- k) \<ge> 10000 * 2 ^ nat k then k else k - 1)"
  define e where "e = l - 52"
  define N :: int where "N = 2 ^ nat (- e)"
  define q where "q = (a * N) div 10000"
  define r where "r = (a * N) mod 10000"
  define q' where "q' = (if 2 * r > 10000 \<or> (2 * r = 10000 \<and> odd q) then q + 1 else q)"
  have a: "0 < a" "a < 2 ^ 53" using False assms by (simp_all add: a_def)
  have "nat a < 2 ^ 53" using a by (simp add: nat_less_iff)
  then have "bitLength (nat a) \<le> 53" by (rule bitLength_bound)
  moreover have "bitLength (nat 10000) = 14" by (simp add: bitLength.simps)
  ultimately have "k \<le> 39" by (simp add: k_def)
  then have "l \<le> 39" by (simp add: l_def)
  then have e: "e \<le> - 13" by (simp add: e_def)
  then have e0: "\<not> e \<ge> 0" "nat e = 0" by simp_all
  have "(2::int) ^ 13 \<le> 2 ^ nat (- e)"
    using e by (intro power_increasing) simp_all
  then have N: "5000 < N" by (simp add: N_def)
  have m: "10000 * 2 ^ nat e = (10000::int)" using e0 by simp
  have "bigIntOfQuotient (Finite x) 10000
      = (if e \<ge> 0 then Inr (sgn x * (q' * 2 ^ nat e))
         else if N dvd q' then Inr (sgn x * (q' div N)) else Inl RangeError)"
    unfolding bigIntOfQuotient.simps Let_def if_not_P [OF False]
    unfolding a_def [symmetric]
    unfolding k_def [symmetric]
    unfolding l_def [symmetric]
    unfolding e_def [symmetric]
    unfolding m N_def [symmetric]
    unfolding q_def [symmetric] r_def [symmetric]
    unfolding q'_def [symmetric]
    by (rule refl)
  then have unfold: "bigIntOfQuotient (Finite x) 10000
      = (if N dvd q' then Inr (sgn x * (q' div N)) else Inl RangeError)"
    using e0 by simp
  have dvd: "(N dvd q') = (10000 dvd a)"
    unfolding q'_def q_def r_def by (rule round_core(1) [OF a(1) N])
  have quot: "10000 dvd a \<Longrightarrow> q' div N = a div 10000"
    unfolding q'_def q_def r_def by (rule round_core(2) [OF a(1) N])
  have dvdx: "(10000 dvd a) = (10000 dvd x)" by (simp add: a_def)
  have sgn: "10000 dvd x \<Longrightarrow> sgn x * (a div 10000) = x div 10000"
  proof -
    assume "10000 dvd x"
    then obtain c where "x = 10000 * c" by (auto simp: dvd_def)
    then show ?thesis by (simp add: a_def abs_mult sgn_mult mult_sgn_abs)
  qed
  show ?thesis
    unfolding unfold using dvd quot dvdx sgn by auto
qed

section \<open>Hex encoding and decoding are inverse\<close>

lemma nibble_cases:
  "(d::nat) < 16 \<Longrightarrow> d = 0 \<or> d = 1 \<or> d = 2 \<or> d = 3 \<or> d = 4 \<or> d = 5 \<or> d = 6 \<or> d = 7
     \<or> d = 8 \<or> d = 9 \<or> d = 10 \<or> d = 11 \<or> d = 12 \<or> d = 13 \<or> d = 14 \<or> d = 15"
  by arith

lemma hexDigitVal_nibble: "d < 16 \<Longrightarrow> hexDigitVal (''0123456789abcdef'' ! d) = Some d"
  by (drule nibble_cases) (elim disjE; simp add: hexDigitVal_def)

lemma nibbles_of_byte: "unat (b :: byte) div 16 < 16" "unat b mod 16 < 16"
proof -
  have "unat b < 256" using unsigned_less [of b] by simp
  then show "unat b div 16 < 16" by simp
  show "unat b mod 16 < 16" by simp
qed

lemma parse_toHexByte:
  "parseHexDigits acc (toHexByte b @ rest) = parseHexDigits (256 * acc + unat b) rest"
proof -
  have "parseHexDigits acc (toHexByte b @ rest)
      = parseHexDigits (16 * (16 * acc + unat b div 16) + unat b mod 16) rest"
    by (simp add: toHexByte_def hexDigitVal_nibble nibbles_of_byte)
  also have "16 * (16 * acc + unat b div 16) + unat b mod 16 = 256 * acc + unat b"
    by simp
  finally show ?thesis .
qed

lemma parse_toHex_beBytes:
  "parseHexDigits acc (toHex (beBytes k v) @ rest)
     = parseHexDigits (acc * 256 ^ k + v mod 256 ^ k) rest"
proof (induction k arbitrary: v rest)
  case 0
  show ?case by (simp add: toHex_def)
next
  case (Suc k)
  have low: "unat (of_nat v :: byte) = v mod 256"
    by (simp add: unat_of_nat)
  have "parseHexDigits acc (toHex (beBytes (Suc k) v) @ rest)
      = parseHexDigits acc (toHex (beBytes k (v div 256)) @ (toHexByte (of_nat v) @ rest))"
    by (simp add: toHex_def)
  also have "\<dots> = parseHexDigits (acc * 256 ^ k + (v div 256) mod 256 ^ k)
                      (toHexByte (of_nat v) @ rest)"
    by (rule Suc.IH)
  also have "\<dots> = parseHexDigits
                      (256 * (acc * 256 ^ k + (v div 256) mod 256 ^ k) + v mod 256) rest"
    by (simp add: parse_toHexByte low)
  also have "256 * (acc * 256 ^ k + (v div 256) mod 256 ^ k) + v mod 256
      = acc * 256 ^ Suc k + v mod 256 ^ Suc k"
  proof -
    have "v mod (256 * 256 ^ k) = 256 * ((v div 256) mod 256 ^ k) + v mod 256"
      by (simp add: mod_mult2_eq)
    then show ?thesis by (simp add: algebra_simps)
  qed
  finally show ?case .
qed

lemma parse_toHex_beBytes0: "parseHexDigits 0 (toHex (beBytes k v)) = Some (v mod 256 ^ k)"
  using parse_toHex_beBytes [of 0 k v "[]"] by simp

lemma length_toHex_beBytes: "length (toHex (beBytes k v)) = 2 * k"
  by (induction k arbitrary: v) (simp_all add: toHex_def toHexByte_def)

lemma toHex_beBytes_nonempty: "0 < k \<Longrightarrow> toHex (beBytes k v) \<noteq> []"
  using length_toHex_beBytes [of k v] by auto

lemma hexDigit_toHexByte: "c \<in> set (toHexByte b) \<Longrightarrow> hexDigitVal c \<noteq> None"
  using hexDigitVal_nibble [OF nibbles_of_byte(1), of b]
    hexDigitVal_nibble [OF nibbles_of_byte(2), of b]
  by (auto simp: toHexByte_def)

lemma hexDigit_toHex: "c \<in> set (toHex bs) \<Longrightarrow> hexDigitVal c \<noteq> None"
  by (auto simp: toHex_def dest: hexDigit_toHexByte)

lemma hexDigit_plain:
  "hexDigitVal c \<noteq> None \<Longrightarrow>
     \<not> isWhiteSpace c \<and> c \<noteq> CHR ''-'' \<and> c \<noteq> CHR ''+'' \<and> c \<noteq> CHR ''x'' \<and> c \<noteq> CHR ''X''"
  by (auto simp: hexDigitVal_def isWhiteSpace_def Let_def split: if_splits)

lemma bigIntOfHex_digits:
  assumes "s \<noteq> []" and "\<forall>c\<in>set s. hexDigitVal c \<noteq> None"
  shows "bigIntOfHex s
           = (case parseHexDigits 0 s of None \<Rightarrow> Inl SyntaxError | Some v \<Rightarrow> Inr (int v))"
proof -
  have "\<not> isWhiteSpace (last s)"
    using assms hexDigit_plain [of "last s"] by simp
  then have "dropWhile isWhiteSpace (rev s) = rev s"
    using assms(1) by (simp add: dropWhile_eq_self_iff hd_rev)
  then show ?thesis
    using assms(1) by (simp add: bigIntOfHex_def)
qed

lemma parseInt16_digits:
  assumes "s \<noteq> []" and "\<forall>c\<in>set s. hexDigitVal c \<noteq> None"
  shows "parseInt16 s
           = (case parseHexDigits 0 s of None \<Rightarrow> NaN | Some v \<Rightarrow> Finite (toNumber (int v)))"
proof -
  have h: "hexDigitVal (hd s) \<noteq> None"
    using assms by simp
  have ws: "dropWhile isWhiteSpace s = s"
    using assms(1) hexDigit_plain [OF h] by (simp add: dropWhile_eq_self_iff)
  have sign: "hd s \<noteq> CHR ''-''" "hd s \<noteq> CHR ''+''"
    using hexDigit_plain [OF h] by simp_all
  have nox: "CHR ''x'' \<notin> set s" "CHR ''X'' \<notin> set s"
    using assms(2) hexDigit_plain by blast+
  have pre: "take 2 s \<noteq> ''0x''" "take 2 s \<noteq> ''0X''"
  proof -
    have "set (take 2 s) \<subseteq> set s" by (rule set_take_subset)
    then show "take 2 s \<noteq> ''0x''" "take 2 s \<noteq> ''0X''"
      using nox by auto
  qed
  have tw: "takeWhile (\<lambda>c. hexDigitVal c \<noteq> None) s = s"
    using assms(2) by (simp add: takeWhile_eq_all_conv)
  show ?thesis
    unfolding parseInt16_def ws Let_def
    using assms(1) sign pre by (simp only: tw if_False if_True simp_thms)
qed

lemma bigIntOfHex_beBytes:
  "0 < k \<Longrightarrow> bigIntOfHex (toHex (beBytes k v)) = Inr (int (v mod 256 ^ k))"
  using bigIntOfHex_digits [OF toHex_beBytes_nonempty, of k v] hexDigit_toHex
  by (simp add: parse_toHex_beBytes0)

lemma parseInt16_beBytes:
  "0 < k \<Longrightarrow> parseInt16 (toHex (beBytes k v)) = Finite (toNumber (int (v mod 256 ^ k)))"
  using parseInt16_digits [OF toHex_beBytes_nonempty, of k v] hexDigit_toHex
  by (simp add: parse_toHex_beBytes0)

lemma mod_u32: "0 \<le> v \<Longrightarrow> v < 2 ^ 32 \<Longrightarrow> nat v mod 256 ^ 4 = nat v" for v :: int
  by (rule mod_less) (simp add: nat_less_iff)

lemma mod_u64: "0 \<le> v \<Longrightarrow> v < 2 ^ 64 \<Longrightarrow> nat v mod 256 ^ 8 = nat v" for v :: int
  by (rule mod_less) (simp add: nat_less_iff)

lemma parse_u32:
  assumes "0 \<le> v" "v < 2 ^ 32"
  shows "parseInt16 (toHex (beBytes 4 (nat v))) = Finite v"
proof -
  have "\<bar>v\<bar> < 2 ^ 53" using assms by simp
  then have "toNumber v = v" by (rule toNumber_exact)
  moreover have "parseInt16 (toHex (beBytes 4 (nat v)))
      = Finite (toNumber (int (nat v mod 256 ^ 4)))"
    by (rule parseInt16_beBytes) simp
  ultimately show ?thesis
    using assms by (simp only: mod_u32 [OF assms] int_nat_eq if_True)
qed

lemma parse_u64:
  assumes "0 \<le> v" "v < 2 ^ 64"
  shows "bigIntOfHex (toHex (beBytes 8 (nat v))) = Inr v"
proof -
  have "bigIntOfHex (toHex (beBytes 8 (nat v))) = Inr (int (nat v mod 256 ^ 8))"
    by (rule bigIntOfHex_beBytes) simp
  then show ?thesis
    using assms by (simp only: mod_u64 [OF assms] int_nat_eq if_True)
qed

lemma slice_0_16: "length a = 16 \<Longrightarrow> slice (a @ b) 0 16 = a"
  by (simp add: slice_def)

lemma slice_16_24: "length a = 16 \<Longrightarrow> length b = 8 \<Longrightarrow> slice (a @ b) 16 24 = b"
  by (simp add: slice_def)

lemma slice_0_8: "length a = 8 \<Longrightarrow> slice (a @ b) 0 8 = a"
  by (simp add: slice_def)

lemma slice_8_16: "length a = 8 \<Longrightarrow> length b = 8 \<Longrightarrow> slice (a @ b @ c) 8 16 = b"
  by (simp add: slice_def)

lemma slice_16_32:
  "length a = 8 \<Longrightarrow> length b = 8 \<Longrightarrow> length c = 16 \<Longrightarrow> slice (a @ b @ c) 16 32 = c"
  by (simp add: slice_def)

section \<open>Commitment round trips\<close>

lemma build_PT_ok:
  assumes "0 \<le> P" "P < 2 ^ 64" "0 \<le> E" "E < 2 ^ 32"
  shows "buildPTCommitment P (Finite E)
           = Inr (toHex (beBytes 8 (nat P)) @ toHex (beBytes 4 (nat E)))"
  using assms by (simp add: buildPTCommitment_def writeBigUInt64BE_def)

lemma parse_PT_ok:
  assumes "0 \<le> P" "P < 2 ^ 64" "0 \<le> E" "E < 2 ^ 32"
  shows "parsePTCommitment (toHex (beBytes 8 (nat P)) @ toHex (beBytes 4 (nat E)))
           = Inr \<lparr>pt_principal = P, pt_expiry = Finite E\<rparr>"
proof -
  let ?a = "toHex (beBytes 8 (nat P))" and ?b = "toHex (beBytes 4 (nat E))"
  have la: "length ?a = 16" and lb: "length ?b = 8"
    by (simp_all only: length_toHex_beBytes)
  have s1: "slice (?a @ ?b) 0 16 = ?a"
    by (rule slice_0_16 [OF la])
  have s2: "slice (?a @ ?b) 16 24 = ?b"
    by (rule slice_16_24 [OF la lb])
  show ?thesis
    unfolding parsePTCommitment_def s1 s2 parse_u64 [OF assms(1,2)] parse_u32 [OF assms(3,4)]
    by (simp only: bindE_simps Let_def)
qed

lemma build_YT_ok:
  assumes "0 \<le> Y" "Y < 2 ^ 64" "0 \<le> E" "E < 2 ^ 32"
  shows "buildYTCommitment Y (Finite E)
           = Inr (toHex (beBytes 8 (nat Y)) @ toHex (beBytes 4 (nat E)))"
  using assms by (simp add: buildYTCommitment_def writeBigUInt64BE_def)

lemma parse_YT_ok:
  assumes "0 \<le> Y" "Y < 2 ^ 64" "0 \<le> E" "E < 2 ^ 32"
  shows "parseYTCommitment (toHex (beBytes 8 (nat Y)) @ toHex (beBytes 4 (nat E)))
           = Inr \<lparr>yt_yieldAccrued = Y, yt_expiry = Finite E\<rparr>"
proof -
  let ?a = "toHex (beBytes 8 (nat Y))" and ?b = "toHex (beBytes 4 (nat E))"
  have la: "length ?a = 16" and lb: "length ?b = 8"
    by (simp_all only: length_toHex_beBytes)
  have s1: "slice (?a @ ?b) 0 16 = ?a"
    by (rule slice_0_16 [OF la])
  have s2: "slice (?a @ ?b) 16 24 = ?b"
    by (rule slice_16_24 [OF la lb])
  show ?thesis
    unfolding parseYTCommitment_def s1 s2 parse_u64 [OF assms(1,2)] parse_u32 [OF assms(3,4)]
    by (simp only: bindE_simps Let_def)
qed

lemma build_Position_ok:
  assumes "0 \<le> tlo" "tlo < 2 ^ 32" "0 \<le> tup" "tup < 2 ^ 32" "0 \<le> L" "L < 2 ^ 64"
  shows "buildPositionCommitment (Finite tlo) (Finite tup) L
           = Inr (toHex (beBytes 4 (nat tlo)) @ toHex (beBytes 4 (nat tup))
                  @ toHex (beBytes 8 (nat L)))"
  using assms by (simp add: buildPositionCommitment_def writeBigUInt64BE_def)

lemma parse_Position_ok:
  assumes "0 \<le> tlo" "tlo < 2 ^ 32" "0 \<le> tup" "tup < 2 ^ 32" "0 \<le> L" "L < 2 ^ 64"
  shows "parsePositionCommitment
           (toHex (beBytes 4 (nat tlo)) @ toHex (beBytes 4 (nat tup)) @ toHex (beBytes 8 (nat L)))
           = Inr \<lparr>pos_tickLower = Finite tlo, pos_tickUpper = Finite tup, pos_liquidity = L\<rparr>"
proof -
  let ?a = "toHex (beBytes 4 (nat tlo))" and ?b = "toHex (beBytes 4 (nat tup))"
    and ?c = "toHex (beBytes 8 (nat L))"
  have la: "length ?a = 8" and lb: "length ?b = 8" and lc: "length ?c = 16"
    by (simp_all only: length_toHex_beBytes)
  have s1: "slice (?a @ ?b @ ?c) 0 8 = ?a"
    by (rule slice_0_8 [OF la])
  have s2: "slice (?a @ ?b @ ?c) 8 16 = ?b"
    by (rule slice_8_16 [OF la lb])
  have s3: "slice (?a @ ?b @ ?c) 16 32 = ?c"
    by (rule slice_16_32 [OF la lb lc])
  show ?thesis
    unfolding parsePositionCommitment_def s1 s2 s3 parse_u64 [OF assms(5,6)]
      parse_u32 [OF assms(1,2)] parse_u32 [OF assms(3,4)]
    by (simp only: bindE_simps Let_def)
qed

text \<open>
  C5. Commitment codec round trip: for ticks and expiry that fit 4 unsigned bytes and
  liquidity, principal and yield that fit 8 unsigned bytes, building a commitment succeeds
  and parsing it returns exactly the original fields, for the position, the PT and the YT
  commitment.
\<close>

theorem commitment_roundtrip:
  "(0 \<le> tlo \<and> tlo < 2 ^ 32 \<and> 0 \<le> tup \<and> tup < 2 ^ 32 \<and> 0 \<le> L \<and> L < 2 ^ 64 \<longrightarrow>
      bindE (buildPositionCommitment (Finite tlo) (Finite tup) L) parsePositionCommitment
        = Inr \<lparr>pos_tickLower = Finite tlo, pos_tickUpper = Finite tup, pos_liquidity = L\<rparr>)
   \<and> (0 \<le> P \<and> P < 2 ^ 64 \<and> 0 \<le> E \<and> E < 2 ^ 32 \<longrightarrow>
      bindE (buildPTCommitment P (Finite E)) parsePTCommitment
        = Inr \<lparr>pt_principal = P, pt_expiry = Finite E\<rparr>)
   \<and> (0 \<le> Y \<and> Y < 2 ^ 64 \<and> 0 \<le> E' \<and> E' < 2 ^ 32 \<longrightarrow>
      bindE (buildYTCommitment Y (Finite E')) parseYTCommitment
        = Inr \<lparr>yt_yieldAccrued = Y, yt_expiry = Finite E'\<rparr>)"
proof (intro conjI impI)
  assume "0 \<le> tlo \<and> tlo < 2 ^ 32 \<and> 0 \<le> tup \<and> tup < 2 ^ 32 \<and> 0 \<le> L \<and> L < 2 ^ 64"
  then have r: "0 \<le> tlo" "tlo < 2 ^ 32" "0 \<le> tup" "tup < 2 ^ 32" "0 \<le> L" "L < 2 ^ 64"
    by simp_all
  show "bindE (buildPositionCommitment (Finite tlo) (Finite tup) L) parsePositionCommitment
      = Inr \<lparr>pos_tickLower = Finite tlo, pos_tickUpper = Finite tup, pos_liquidity = L\<rparr>"
    unfolding build_Position_ok [OF r] bindE_simps by (rule parse_Position_ok [OF r])
next
  assume "0 \<le> P \<and> P < 2 ^ 64 \<and> 0 \<le> E \<and> E < 2 ^ 32"
  then have r: "0 \<le> P" "P < 2 ^ 64" "0 \<le> E" "E < 2 ^ 32"
    by simp_all
  show "bindE (buildPTCommitment P (Finite E)) parsePTCommitment
      = Inr \<lparr>pt_principal = P, pt_expiry = Finite E\<rparr>"
    unfolding build_PT_ok [OF r] bindE_simps by (rule parse_PT_ok [OF r])
next
  assume "0 \<le> Y \<and> Y < 2 ^ 64 \<and> 0 \<le> E' \<and> E' < 2 ^ 32"
  then have r: "0 \<le> Y" "Y < 2 ^ 64" "0 \<le> E'" "E' < 2 ^ 32"
    by simp_all
  show "bindE (buildYTCommitment Y (Finite E')) parseYTCommitment
      = Inr \<lparr>yt_yieldAccrued = Y, yt_expiry = Finite E'\<rparr>"
    unfolding build_YT_ok [OF r] bindE_simps by (rule parse_YT_ok [OF r])
qed

text \<open>
  C5 at the largest liquidity, a PT with principal 50000 and expiry 500000 (its commitment
  is \<open>000000000000c3500007a120\<close>) and a YT with yield 2500 and expiry 750000.
\<close>

theorem commitment_roundtrip_witness:
  "bindE (buildPositionCommitment (Finite 0) (Finite 100) 18446744073709551615)
         parsePositionCommitment
     = Inr \<lparr>pos_tickLower = Finite 0, pos_tickUpper = Finite 100,
            pos_liquidity = 18446744073709551615\<rparr>
   \<and> bindE (buildPTCommitment 50000 (Finite 500000)) parsePTCommitment
     = Inr \<lparr>pt_principal = 50000, pt_expiry = Finite 500000\<rparr>
   \<and> bindE (buildYTCommitment 2500 (Finite 750000)) parseYTCommitment
     = Inr \<lparr>yt_yieldAccrued = 2500, yt_expiry = Finite 750000\<rparr>
   \<and> buildPTCommitment 50000 (Finite 500000) = Inr ''000000000000c3500007a120''"
  using commitment_roundtrip [of 0 100 18446744073709551615 50000 500000 2500 750000]
  by (simp add: buildPTCommitment_def writeBigUInt64BE_def beBytes_numeral toHex_def toHexByte_def)

section \<open>Redemption of a principal token\<close>

text \<open>
  C7. For a PT whose commitment holds principal \<open>P\<close> and expiry \<open>E\<close>, \<open>handleRedeemPT\<close>
  stops with the not-yet-matured exit whenever \<open>currentTime < E\<close> (so also at \<open>E - 1\<close>), and
  whenever \<open>currentTime \<ge> E\<close> it submits the redemption whose only output pays exactly
  \<open>P\<close> to the owner and carries no token: the PT is spent and appears in no output.
\<close>

theorem redeemPT_gated_by_expiry:
  assumes "ptTxId \<noteq> []"
    and "find (isNftAt ptTxId ptVout) userUtxos = Some ptUtxo"
    and "parsePTCommitment (commitmentOf ptUtxo) = Inr \<lparr>pt_principal = P, pt_expiry = Finite E\<rparr>"
  shows "(currentTime < E \<longrightarrow>
            handleRedeemPT userUtxos ptTxId ptVout (Finite currentTime) ownerAddress
              = Inl NotYetMatured)
       \<and> (currentTime \<ge> E \<longrightarrow>
            handleRedeemPT userUtxos ptTxId ptVout (Finite currentTime) ownerAddress
              = Inr \<lparr>tx_call = RedeemPT (Finite currentTime),
                     tx_from = [nftInput ptUtxo],
                     tx_to = [\<lparr>out_to = ownerAddress, out_amount = P, out_token = None\<rparr>]\<rparr>)"
  using assms by (simp add: handleRedeemPT_def)

text \<open>C7 at a PT with principal 50000 and expiry 500000, one block early and on time.\<close>

theorem redeemPT_gated_by_expiry_witness:
  "handleRedeemPT
     [\<lparr>utxo_txid = ''t2'', utxo_vout = 0, utxo_satoshis = 1000,
       utxo_token = Some \<lparr>tok_category = ''c1'', tok_amount = 0,
         tok_nft = Some \<lparr>nft_capability = CapNone,
                          nft_commitment = ''000000000000c3500007a120''\<rparr>\<rparr>\<rparr>]
     ''t2'' (Finite 0) (Finite 499999) ''owner'' = Inl NotYetMatured
   \<and> handleRedeemPT
     [\<lparr>utxo_txid = ''t2'', utxo_vout = 0, utxo_satoshis = 1000,
       utxo_token = Some \<lparr>tok_category = ''c1'', tok_amount = 0,
         tok_nft = Some \<lparr>nft_capability = CapNone,
                          nft_commitment = ''000000000000c3500007a120''\<rparr>\<rparr>\<rparr>]
     ''t2'' (Finite 0) (Finite 500000) ''owner''
     = Inr \<lparr>tx_call = RedeemPT (Finite 500000),
            tx_from =
              [\<lparr>utxo_txid = ''t2'', utxo_vout = 0, utxo_satoshis = 1000,
                utxo_token = Some \<lparr>tok_category = ''c1'', tok_amount = 0,
                  tok_nft = Some \<lparr>nft_capability = CapNone,
                                   nft_commitment = ''000000000000c3500007a120''\<rparr>\<rparr>\<rparr>],
            tx_to = [\<lparr>out_to = ''owner'', out_amount = 50000, out_token = None\<rparr>]\<rparr>"
proof -
  let ?pt = "\<lparr>utxo_txid = ''t2'', utxo_vout = 0, utxo_satoshis = 1000,
       utxo_token = Some \<lparr>tok_category = ''c1'', tok_amount = 0,
         tok_nft = Some \<lparr>nft_capability = CapNone,
                          nft_commitment = ''000000000000c3500007a120''\<rparr>\<rparr>\<rparr>"
  have h1: "''t2'' \<noteq> []" by simp
  have h2: "find (isNftAt ''t2'' (Finite 0)) [?pt] = Some ?pt"
    by (simp add: ledger_eval)
  have h3: "parsePTCommitment (commitmentOf ?pt)
      = Inr \<lparr>pt_principal = 50000, pt_expiry = Finite 500000\<rparr>"
    by (simp add: ledger_eval codec_eval)
  show ?thesis
    using redeemPT_gated_by_expiry [OF h1 h2 h3, of 499999 "''owner''"]
      redeemPT_gated_by_expiry [OF h1 h2 h3, of 500000 "''owner''"]
    by (simp add: nftInput_def category_def commitmentOf_def nftOf_def)
qed

section \<open>Merge of a principal and a yield token\<close>

text \<open>
  C1. The merge is required to fail when the expiries of the PT and the YT differ.
  \<open>handleMerge\<close> parses both commitments and never compares the expiries: for a PT with
  principal 50000 and expiry 500000 and a YT with expiry 600000 it submits the merge whose
  output is a receipt NFT with commitment 50000.
\<close>

theorem merge_accepts_mismatched_expiry:
  "parsePTCommitment ''000000000000c3500007a120''
     = Inr \<lparr>pt_principal = 50000, pt_expiry = Finite 500000\<rparr>
   \<and> parseYTCommitment ''0000000000000000000927c0''
     = Inr \<lparr>yt_yieldAccrued = 0, yt_expiry = Finite 600000\<rparr>
   \<and> handleMerge
     [\<lparr>utxo_txid = ''t2'', utxo_vout = 0, utxo_satoshis = 1000,
       utxo_token = Some \<lparr>tok_category = ''c1'', tok_amount = 0,
         tok_nft = Some \<lparr>nft_capability = CapNone,
                          nft_commitment = ''000000000000c3500007a120''\<rparr>\<rparr>\<rparr>,
      \<lparr>utxo_txid = ''t3'', utxo_vout = 1, utxo_satoshis = 1000,
       utxo_token = Some \<lparr>tok_category = ''c1'', tok_amount = 0,
         tok_nft = Some \<lparr>nft_capability = CapNone,
                          nft_commitment = ''0000000000000000000927c0''\<rparr>\<rparr>\<rparr>]
     ''t2'' (Finite 0) ''t3'' (Finite 1) ''owner''
     = Inr \<lparr>tx_call = Merge,
            tx_from =
              [\<lparr>utxo_txid = ''t2'', utxo_vout = 0, utxo_satoshis = 1000,
                utxo_token = Some \<lparr>tok_category = ''c1'', tok_amount = 0,
                  tok_nft = Some \<lparr>nft_capability = CapNone,
                                   nft_commitment = ''000000000000c3500007a120''\<rparr>\<rparr>\<rparr>,
               \<lparr>utxo_txid = ''t3'', utxo_vout = 1, utxo_satoshis = 1000,
                utxo_token = Some \<lparr>tok_category = ''c1'', tok_amount = 0,
                  tok_nft = Some \<lparr>nft_capability = CapNone,
                                   nft_commitment = ''0000000000000000000927c0''\<rparr>\<rparr>\<rparr>],
            tx_to =
              [\<lparr>out_to = ''owner'', out_amount = 1000,
                out_token = Some \<lparr>tok_category = ''c1'', tok_amount = 0,
                  tok_nft = Some \<lparr>nft_capability = CapNone,
                                   nft_commitment = ''000000000000c350''\<rparr>\<rparr>\<rparr>]\<rparr>"
  by (simp add: handleMerge_def codec_eval ledger_eval)

section \<open>Adding liquidity\<close>

text \<open>
  C8. Adding liquidity is required to fail when \<open>tickLower \<ge> tickUpper\<close>. The \<open>add\<close> case
  of \<open>main\<close> checks no tick order: for ticks \<open>(100, 50)\<close>, and for the empty range
  \<open>(100, 100)\<close>, it builds the position commitment and submits \<open>addLiquidity\<close> with the
  position NFT among the outputs.
\<close>

theorem addLiquidity_accepts_inverted_ticks:
  "main_add 100000 100000 (Finite 100) (Finite 50) ''owner'' ''contract''
     = Inr \<lparr>dex_call = AddLiquidity 100000 100000 (Finite 100) (Finite 50),
            dex_to = [ValueTo ''contract'' 1000,
                      NftTo ''owner'' ''position'' ''000000640000003200000000000186a0''],
            dex_sender = ''owner''\<rparr>
   \<and> parsePositionCommitment ''000000640000003200000000000186a0''
     = Inr \<lparr>pos_tickLower = Finite 100, pos_tickUpper = Finite 50, pos_liquidity = 100000\<rparr>
   \<and> main_add 7 9 (Finite 100) (Finite 100) ''owner'' ''contract''
     = Inr \<lparr>dex_call = AddLiquidity 7 9 (Finite 100) (Finite 100),
            dex_to = [ValueTo ''contract'' 1000,
                      NftTo ''owner'' ''position'' ''00000064000000640000000000000007''],
            dex_sender = ''owner''\<rparr>"
  by (simp add: main_add_def calculateLiquidity_def codec_eval)

section \<open>Stake and unstake\<close>

text \<open>
  C2. Staking an amount and then unstaking the receipt is required to pay out that amount
  and restore the reserve. With a reserve of 100000 and a stake of 50000, the stake script
  writes the receipt commitment \<open>50c3000000000000\<close>; the unstake script, run on the two
  UTXOs that the stake transaction creates, reads that commitment as 5819495143492812800
  and stops because the reserve of 150000 is below it. No payout is made.
\<close>

theorem stake_then_unstake_mismatch:
  "stake_main
     [\<lparr>utxo_txid = ''t0'', utxo_vout = 0, utxo_satoshis = 100000,
       utxo_token = Some \<lparr>tok_category = ''c1'', tok_amount = 0,
         tok_nft = Some \<lparr>nft_capability = CapMinting, nft_commitment = []\<rparr>\<rparr>\<rparr>]
     [\<lparr>utxo_txid = ''w0'', utxo_vout = 0, utxo_satoshis = 60000, utxo_token = None\<rparr>]
     50000 ''owner'' ''contract''
     = Inr \<lparr>tx_call = Stake,
            tx_from = [\<lparr>utxo_txid = ''w0'', utxo_vout = 0, utxo_satoshis = 60000,
                        utxo_token = None\<rparr>],
            tx_to =
              [\<lparr>out_to = ''contract'', out_amount = 150000,
                out_token = Some \<lparr>tok_category = ''c1'', tok_amount = 0,
                  tok_nft = Some \<lparr>nft_capability = CapMinting, nft_commitment = []\<rparr>\<rparr>\<rparr>,
               \<lparr>out_to = ''owner'', out_amount = 1000,
                out_token = Some \<lparr>tok_category = ''c1'', tok_amount = 0,
                  tok_nft = Some \<lparr>nft_capability = CapNone,
                                   nft_commitment = ''50c3000000000000''\<rparr>\<rparr>\<rparr>]\<rparr>
   \<and> unstake_main
     [outputUtxo ''t1'' 0
        \<lparr>out_to = ''contract'', out_amount = 150000,
         out_token = Some \<lparr>tok_category = ''c1'', tok_amount = 0,
           tok_nft = Some \<lparr>nft_capability = CapMinting, nft_commitment = []\<rparr>\<rparr>\<rparr>]
     [outputUtxo ''t1'' 1
        \<lparr>out_to = ''owner'', out_amount = 1000,
         out_token = Some \<lparr>tok_category = ''c1'', tok_amount = 0,
           tok_nft = Some \<lparr>nft_capability = CapNone,
                            nft_commitment = ''50c3000000000000''\<rparr>\<rparr>\<rparr>]
     ''t1'' (Finite 1) ''owner'' ''contract''
     = Inl InsufficientReserve"
  by (simp add: stake_main_def unstake_main_def codec_eval ledger_eval toNumber_def
      bitLength.simps Let_def)

text \<open>
  C3. The staked amount is required to be written and read big-endian. The stake script
  writes it with \<open>writeBigUInt64LE\<close>: a stake of 1000000 gives the receipt commitment
  \<open>40420f0000000000\<close>, where the big-endian writer that \<open>handleMerge\<close> uses for the same
  receipt commitment gives \<open>00000000000f4240\<close>. The reader of the unstake script is
  big-endian: it turns the former into 4630279859564707840 and only the latter into 1000000.
\<close>

theorem stake_commitment_little_endian:
  "stake_main
     [\<lparr>utxo_txid = ''t0'', utxo_vout = 0, utxo_satoshis = 5000,
       utxo_token = Some \<lparr>tok_category = ''c1'', tok_amount = 0,
         tok_nft = Some \<lparr>nft_capability = CapMinting, nft_commitment = []\<rparr>\<rparr>\<rparr>]
     [\<lparr>utxo_txid = ''w0'', utxo_vout = 3, utxo_satoshis = 2000000, utxo_token = None\<rparr>]
     1000000 ''owner'' ''contract''
     = Inr \<lparr>tx_call = Stake,
            tx_from = [\<lparr>utxo_txid = ''w0'', utxo_vout = 3, utxo_satoshis = 2000000,
                        utxo_token = None\<rparr>],
            tx_to =
              [\<lparr>out_to = ''contract'', out_amount = 1005000,
                out_token = Some \<lparr>tok_category = ''c1'', tok_amount = 0,
                  tok_nft = Some \<lparr>nft_capability = CapMinting, nft_commitment = []\<rparr>\<rparr>\<rparr>,
               \<lparr>out_to = ''owner'', out_amount = 1000,
                out_token = Some \<lparr>tok_category = ''c1'', tok_amount = 0,
                  tok_nft = Some \<lparr>nft_capability = CapNone,
                                   nft_commitment = ''40420f0000000000''\<rparr>\<rparr>\<rparr>]\<rparr>
   \<and> bindE (writeBigUInt64BE 1000000) (\<lambda>lstBchCommitment. Inr (toHex lstBchCommitment))
     = Inr ''00000000000f4240''
   \<and> bigIntOfHex ''40420f0000000000'' = Inr 4630279859564707840
   \<and> bigIntOfHex ''00000000000f4240'' = Inr 1000000"
  by (simp add: stake_main_def codec_eval ledger_eval)

section \<open>Yield claims\<close>

lemma bigIntOfHex_nonneg: "bigIntOfHex s = Inr v \<Longrightarrow> 0 \<le> v"
  by (auto simp: bigIntOfHex_def Let_def split: if_splits option.splits)

lemma parseYT_nonneg:
  "parseYTCommitment c = Inr d \<Longrightarrow> 0 \<le> yt_yieldAccrued d"
  by (cases "bigIntOfHex (slice c 0 16)")
     (auto simp: parseYTCommitment_def Let_def dest: bigIntOfHex_nonneg)

lemma hexDigitVal_less: "hexDigitVal c = Some d \<Longrightarrow> d < 16"
  by (auto simp: hexDigitVal_def Let_def split: if_splits)

lemma parseHexDigits_bound:
  "parseHexDigits acc s = Some v \<Longrightarrow> v < (acc + 1) * 16 ^ length s"
proof (induction s arbitrary: acc)
  case Nil
  then show ?case by simp
next
  case (Cons c s)
  then obtain d where d: "hexDigitVal c = Some d"
    and rest: "parseHexDigits (16 * acc + d) s = Some v"
    by (auto split: option.splits)
  have "d < 16" using d by (rule hexDigitVal_less)
  then have "16 * acc + d + 1 \<le> 16 * (acc + 1)" by simp
  then have le: "(16 * acc + d + 1) * 16 ^ length s \<le> 16 * (acc + 1) * 16 ^ length s"
    by (rule mult_le_mono1)
  have "v < (16 * acc + d + 1) * 16 ^ length s"
    using Cons.IH [OF rest] .
  with le have "v < 16 * (acc + 1) * 16 ^ length s" by linarith
  then show ?case by (simp add: algebra_simps)
qed

lemma parseInt16_bound:
  assumes "parseInt16 s = Finite E" and "length s \<le> 8"
  shows "\<bar>E\<bar> < 2 ^ 32"
proof -
  define s1 where "s1 = dropWhile isWhiteSpace s"
  define s2 where "s2 = (if s1 \<noteq> [] \<and> (hd s1 = CHR ''-'' \<or> hd s1 = CHR ''+'') then tl s1 else s1)"
  define s3 where "s3 = (if take 2 s2 = ''0x'' \<or> take 2 s2 = ''0X'' then drop 2 s2 else s2)"
  define ds where "ds = takeWhile (\<lambda>c. hexDigitVal c \<noteq> None) s3"
  have "length s1 \<le> length s" by (simp add: s1_def length_dropWhile_le)
  moreover have "length s2 \<le> length s1" by (simp add: s2_def)
  moreover have "length s3 \<le> length s2" by (simp add: s3_def)
  moreover have "length ds \<le> length s3" by (simp add: ds_def length_takeWhile_le)
  ultimately have len: "length ds \<le> 8" using assms(2) by simp
  define neg where "neg = (s1 \<noteq> [] \<and> hd s1 = CHR ''-'')"
  have unfold: "parseInt16 s
      = (if ds = [] then NaN
         else case parseHexDigits 0 ds of
                None \<Rightarrow> NaN
              | Some v \<Rightarrow> Finite (toNumber (if neg then - int v else int v)))"
    unfolding parseInt16_def Let_def
    unfolding s1_def [symmetric]
    unfolding neg_def [symmetric] s2_def [symmetric]
    unfolding s3_def [symmetric]
    unfolding ds_def [symmetric]
    by (rule refl)
  obtain v where v: "parseHexDigits 0 ds = Some v"
    and E: "E = toNumber (if neg then - int v else int v)"
    using assms(1) unfolding unfold by (auto split: if_splits option.splits)
  have "v < 16 ^ length ds" using parseHexDigits_bound [OF v] by simp
  also have "\<dots> \<le> (16::nat) ^ 8" using len by (intro power_increasing) simp_all
  finally have vb: "int v < 2 ^ 32" by simp
  then have "toNumber (int v) = int v" "toNumber (- int v) = - int v"
    by (simp_all add: toNumber_exact)
  then show ?thesis using E vb by (cases neg) simp_all
qed

lemma parseYT_expiry_bound:
  assumes "parseYTCommitment c = Inr \<lparr>yt_yieldAccrued = Y, yt_expiry = Finite E\<rparr>"
  shows "\<bar>E\<bar> < 2 ^ 32"
proof -
  have "parseInt16 (slice c 16 24) = Finite E"
    using assms by (cases "bigIntOfHex (slice c 0 16)") (auto simp: parseYTCommitment_def Let_def)
  moreover have "length (slice c 16 24) \<le> 8" by (simp add: slice_def)
  ultimately show ?thesis by (rule parseInt16_bound)
qed

lemma claim_at_expiry:
  assumes "utxo_txid u \<noteq> []" and "capabilityOf u = Some CapNone"
    and "parseYTCommitment (commitmentOf u) = Inr \<lparr>yt_yieldAccrued = Y, yt_expiry = Finite E\<rparr>"
    and "E \<le> t"
  shows "handleClaimYield [u] (utxo_txid u) (Finite (utxo_vout u)) (Finite t) yieldRate owner
           = Inr \<lparr>tx_call = ClaimYield (Finite t) yieldRate,
                  tx_from = [nftInput u],
                  tx_to = [\<lparr>out_to = owner, out_amount = Y, out_token = None\<rparr>]\<rparr>"
  using assms by (simp add: handleClaimYield_def isNftAt_def)

lemma claim_step:
  assumes run: "handleClaimYield [u] (utxo_txid u) (Finite (utxo_vout u)) (Finite n)
                  (Finite r) owner = Inr t"
    and parse: "parseYTCommitment (commitmentOf u)
                  = Inr \<lparr>yt_yieldAccrued = Y, yt_expiry = Finite E\<rparr>"
    and n: "0 \<le> n" "n < E" and r: "0 \<le> r"
  shows "\<exists>Y'. Y \<le> Y' \<and> Y' < 2 ^ 64 \<and> E < 2 ^ 32
           \<and> tx_to t =
               [\<lparr>out_to = owner, out_amount = 1000,
                 out_token = Some \<lparr>tok_category = category u, tok_amount = 0,
                   tok_nft = Some \<lparr>nft_capability = CapNone,
                     nft_commitment = toHex (beBytes 8 (nat Y')) @ toHex (beBytes 4 (nat E))\<rparr>\<rparr>\<rparr>]"
proof -
  let ?x = "toNumber (n * r)"
  have Y0: "0 \<le> Y"
    using parseYT_nonneg [OF parse] by simp
  have x0: "0 \<le> ?x"
    using n(1) r by (intro toNumber_nonneg) simp
  have found: "utxo_txid u \<noteq> []
      \<and> find (isNftAt (utxo_txid u) (Finite (utxo_vout u))) [u] = Some u"
    using run by (auto simp: handleClaimYield_def split: if_splits)
  have nge: "\<not> js_ge (Finite n) (Finite E)" using n(2) by simp
  have run': "bindE (bigIntOfQuotient (Finite ?x) 10000) (\<lambda>accrued.
                 bindE (buildYTCommitment (Y + accrued) (Finite E)) (\<lambda>newYtCommitment.
                      Inr \<lparr>tx_call = ClaimYield (Finite n) (Finite r),
                           tx_from = [nftInput u],
                           tx_to =
                             [\<lparr>out_to = owner,
                               out_amount = 1000,
                               out_token = Some \<lparr>tok_category = category u,
                                 tok_amount = 0,
                                 tok_nft = Some \<lparr>nft_capability = CapNone,
                                                  nft_commitment = newYtCommitment\<rparr>\<rparr>\<rparr>]\<rparr>)) = Inr t"
    using run found
    by (simp only: handleClaimYield_def Let_def parse bindE_simps option.case ytData.simps
        nge if_False js_mul.simps)
  obtain v where v: "bigIntOfQuotient (Finite ?x) 10000 = Inr v"
    using run' by (cases "bigIntOfQuotient (Finite ?x) 10000") simp_all
  have v0: "0 \<le> v"
    by (rule bigIntOfQuotient_nonneg [OF x0 _ v]) simp
  let ?Y' = "Y + v"
  have run'': "bindE (buildYTCommitment ?Y' (Finite E)) (\<lambda>newYtCommitment.
                      Inr \<lparr>tx_call = ClaimYield (Finite n) (Finite r),
                           tx_from = [nftInput u],
                           tx_to =
                             [\<lparr>out_to = owner,
                               out_amount = 1000,
                               out_token = Some \<lparr>tok_category = category u,
                                 tok_amount = 0,
                                 tok_nft = Some \<lparr>nft_capability = CapNone,
                                                  nft_commitment = newYtCommitment\<rparr>\<rparr>\<rparr>]\<rparr>) = Inr t"
    using run' unfolding v bindE_simps .
  have range: "?Y' < 2 ^ 64 \<and> E < 2 ^ 32"
    using run'' by (auto simp: buildYTCommitment_def writeBigUInt64BE_def split: if_splits)
  have E0: "0 \<le> E" using n by simp
  have Y'0: "0 \<le> ?Y'" using Y0 v0 by simp
  have b: "buildYTCommitment ?Y' (Finite E)
      = Inr (toHex (beBytes 8 (nat ?Y')) @ toHex (beBytes 4 (nat E)))"
    using range by (intro build_YT_ok [OF Y'0 _ E0]) simp_all
  have "tx_to t = [\<lparr>out_to = owner, out_amount = 1000,
                 out_token = Some \<lparr>tok_category = category u, tok_amount = 0,
                   tok_nft = Some \<lparr>nft_capability = CapNone,
                     nft_commitment = toHex (beBytes 8 (nat ?Y')) @ toHex (beBytes 4 (nat E))\<rparr>\<rparr>\<rparr>]"
    using run'' unfolding b bindE_simps by auto
  then show ?thesis
    using range v0 by (intro exI [of _ ?Y']) simp
qed

lemma claimSequence_yields:
  assumes "0 \<le> r"
  shows "claimSequence u steps (Finite r) owner = Inr yts \<Longrightarrow>
         parseYTCommitment (commitmentOf u)
           = Inr \<lparr>yt_yieldAccrued = Y, yt_expiry = Finite E\<rparr> \<Longrightarrow>
         \<forall>(txid, n) \<in> set steps. txid \<noteq> [] \<and> 0 \<le> n \<and> n < E \<Longrightarrow>
         \<exists>ys. list_all2 (\<lambda>u' y. utxo_txid u' \<noteq> [] \<and> capabilityOf u' = Some CapNone
                     \<and> parseYTCommitment (commitmentOf u')
                         = Inr \<lparr>yt_yieldAccrued = y, yt_expiry = Finite E\<rparr>) yts ys
              \<and> sorted (Y # ys)"
proof (induction steps arbitrary: u Y yts)
  case Nil
  then show ?case by simp
next
  case (Cons step steps)
  obtain txid n where step: "step = (txid, n)" by (cases step)
  have bounds: "txid \<noteq> []" "0 \<le> n" "n < E"
    using Cons.prems(3) step by simp_all
  obtain t where run: "handleClaimYield [u] (utxo_txid u) (Finite (utxo_vout u)) (Finite n)
                         (Finite r) owner = Inr t"
    using Cons.prems(1) step by (auto split: sum.splits)
  obtain Y' where Y': "Y \<le> Y'" "Y' < 2 ^ 64" "E < 2 ^ 32"
    and out: "tx_to t =
               [\<lparr>out_to = owner, out_amount = 1000,
                 out_token = Some \<lparr>tok_category = category u, tok_amount = 0,
                   tok_nft = Some \<lparr>nft_capability = CapNone,
                     nft_commitment = toHex (beBytes 8 (nat Y')) @ toHex (beBytes 4 (nat E))\<rparr>\<rparr>\<rparr>]"
    using claim_step [OF run Cons.prems(2) bounds(2,3) assms] by blast
  let ?u' = "outputUtxo txid 0
               \<lparr>out_to = owner, out_amount = 1000,
                 out_token = Some \<lparr>tok_category = category u, tok_amount = 0,
                   tok_nft = Some \<lparr>nft_capability = CapNone,
                     nft_commitment = toHex (beBytes 8 (nat Y')) @ toHex (beBytes 4 (nat E))\<rparr>\<rparr>\<rparr>"
  have Y0: "0 \<le> Y" using parseYT_nonneg [OF Cons.prems(2)] by simp
  have Y'0: "0 \<le> Y'" using Y0 Y'(1) by simp
  have E0: "0 \<le> E" using bounds by simp
  have u'_commit: "commitmentOf ?u' = toHex (beBytes 8 (nat Y')) @ toHex (beBytes 4 (nat E))"
    by (simp add: outputUtxo_def commitmentOf_def nftOf_def)
  have u'_parse: "parseYTCommitment (commitmentOf ?u')
      = Inr \<lparr>yt_yieldAccrued = Y', yt_expiry = Finite E\<rparr>"
    unfolding u'_commit by (rule parse_YT_ok [OF Y'0 Y'(2) E0 Y'(3)])
  have u'_nft: "utxo_txid ?u' \<noteq> []" "capabilityOf ?u' = Some CapNone"
    using bounds(1) by (simp_all add: outputUtxo_def capabilityOf_def nftOf_def)
  obtain rest where rest: "claimSequence ?u' steps (Finite r) owner = Inr rest"
    and yts: "yts = ?u' # rest"
    using Cons.prems(1) step run out by (auto split: sum.splits)
  have "\<forall>(txid, n) \<in> set steps. txid \<noteq> [] \<and> 0 \<le> n \<and> n < E"
    using Cons.prems(3) by simp
  from Cons.IH [OF rest u'_parse this]
  obtain ys where ys: "list_all2 (\<lambda>u' y. utxo_txid u' \<noteq> [] \<and> capabilityOf u' = Some CapNone
                     \<and> parseYTCommitment (commitmentOf u')
                         = Inr \<lparr>yt_yieldAccrued = y, yt_expiry = Finite E\<rparr>) rest ys"
    and sorted: "sorted (Y' # ys)"
    by blast
  have "sorted (Y # Y' # ys)"
    using sorted Y'(1) by auto
  then show ?case
    using ys u'_parse u'_nft yts by (intro exI [of _ "Y' # ys"]) simp
qed

lemma list_all2_last: "list_all2 P xs ys \<Longrightarrow> xs \<noteq> [] \<Longrightarrow> P (last xs) (last ys)"
proof (induction rule: list_all2_induct)
  case Nil
  then show ?case by simp
next
  case (Cons x xs y ys)
  show ?case
  proof (cases "xs = []")
    case True
    then have "ys = []" using Cons.hyps(2) by simp
    then show ?thesis using True Cons.hyps(1) by simp
  next
    case False
    then have "ys \<noteq> []" using Cons.hyps(2) by auto
    then show ?thesis using False Cons.IH by simp
  qed
qed

text \<open>
  C4, as the code has it. For a YT with accrued yield \<open>Y\<close> and expiry \<open>E\<close>, a time
  \<open>0 \<le> currentTime < E\<close> and a rate \<open>yieldRate \<ge> 0\<close> such that \<open>currentTime * yieldRate\<close>
  is below \<open>2^53\<close> and a multiple of 10000, and the new yield fits 8 bytes:
  \<open>handleClaimYield\<close> submits the claim whose output is a YT with the same expiry and yield
  exactly \<open>Y + currentTime * yieldRate / 10000\<close>, which is not below \<open>Y\<close>. The elapsed time
  is \<open>currentTime\<close> itself, which is below \<open>E\<close>; it is not measured from the mint or the
  last claim.
\<close>

theorem claimYield_before_expiry:
  assumes "ytTxId \<noteq> []"
    and "find (isNftAt ytTxId ytVout) userUtxos = Some ytUtxo"
    and "parseYTCommitment (commitmentOf ytUtxo)
           = Inr \<lparr>yt_yieldAccrued = Y, yt_expiry = Finite E\<rparr>"
    and "0 \<le> currentTime" and "currentTime < E"
    and "0 \<le> yieldRate" and "currentTime * yieldRate < 2 ^ 53"
    and "10000 dvd currentTime * yieldRate"
    and "Y + currentTime * yieldRate div 10000 < 2 ^ 64"
  shows "handleClaimYield userUtxos ytTxId ytVout (Finite currentTime) (Finite yieldRate)
             ownerAddress
           = Inr \<lparr>tx_call = ClaimYield (Finite currentTime) (Finite yieldRate),
                  tx_from = [nftInput ytUtxo],
                  tx_to =
                    [\<lparr>out_to = ownerAddress, out_amount = 1000,
                      out_token = Some \<lparr>tok_category = category ytUtxo, tok_amount = 0,
                        tok_nft = Some \<lparr>nft_capability = CapNone,
                          nft_commitment =
                            toHex (beBytes 8 (nat (Y + currentTime * yieldRate div 10000)))
                            @ toHex (beBytes 4 (nat E))\<rparr>\<rparr>\<rparr>]\<rparr>
       \<and> parseYTCommitment
             (toHex (beBytes 8 (nat (Y + currentTime * yieldRate div 10000)))
              @ toHex (beBytes 4 (nat E)))
           = Inr \<lparr>yt_yieldAccrued = Y + currentTime * yieldRate div 10000,
                  yt_expiry = Finite E\<rparr>
       \<and> Y \<le> Y + currentTime * yieldRate div 10000"
proof -
  let ?p = "currentTime * yieldRate"
  let ?Y' = "Y + ?p div 10000"
  have Y0: "0 \<le> Y"
    using parseYT_nonneg [OF assms(3)] by simp
  have E32: "E < 2 ^ 32"
    using parseYT_expiry_bound [OF assms(3)] by simp
  have p0: "0 \<le> ?p"
    using assms(4,6) by simp
  then have inc0: "0 \<le> ?p div 10000"
    by (simp add: pos_imp_zdiv_nonneg_iff)
  have exact: "toNumber ?p = ?p"
    using p0 assms(7) by (intro toNumber_exact) simp
  have q: "bigIntOfQuotient (js_mul (Finite currentTime) (Finite yieldRate)) 10000
      = Inr (?p div 10000)"
    using assms(8) p0 assms(7) by (simp add: exact bigIntOfQuotient_safe)
  have E0: "0 \<le> E"
    using assms(4,5) by simp
  have Y'0: "0 \<le> ?Y'"
    using Y0 inc0 by simp
  have b: "buildYTCommitment ?Y' (Finite E)
      = Inr (toHex (beBytes 8 (nat ?Y')) @ toHex (beBytes 4 (nat E)))"
    by (rule build_YT_ok [OF Y'0 assms(9) E0 E32])
  have nge: "\<not> js_ge (Finite currentTime) (Finite E)"
    using assms(5) by simp
  have run: "handleClaimYield userUtxos ytTxId ytVout (Finite currentTime) (Finite yieldRate)
             ownerAddress
           = Inr \<lparr>tx_call = ClaimYield (Finite currentTime) (Finite yieldRate),
                  tx_from = [nftInput ytUtxo],
                  tx_to =
                    [\<lparr>out_to = ownerAddress, out_amount = 1000,
                      out_token = Some \<lparr>tok_category = category ytUtxo, tok_amount = 0,
                        tok_nft = Some \<lparr>nft_capability = CapNone,
                          nft_commitment =
                            toHex (beBytes 8 (nat ?Y')) @ toHex (beBytes 4 (nat E))\<rparr>\<rparr>\<rparr>]\<rparr>"
    unfolding handleClaimYield_def Let_def
    using assms(1) by (simp only: assms(2) assms(3) bindE_simps option.case ytData.simps
        nge q b if_False)
  show ?thesis
    using run parse_YT_ok [OF Y'0 assms(9) E0 E32] inc0 by simp
qed

text \<open>
  C4, as the code has it, at a fresh YT with expiry 500000 claimed at time 250000 at 500
  basis points: the new yield is 12500.
\<close>

theorem claimYield_before_expiry_witness:
  "handleClaimYield
     [\<lparr>utxo_txid = ''t2'', utxo_vout = 1, utxo_satoshis = 1000,
       utxo_token = Some \<lparr>tok_category = ''c1'', tok_amount = 0,
         tok_nft = Some \<lparr>nft_capability = CapNone,
                          nft_commitment = ''00000000000000000007a120''\<rparr>\<rparr>\<rparr>]
     ''t2'' (Finite 1) (Finite 250000) (Finite 500) ''owner''
     = Inr \<lparr>tx_call = ClaimYield (Finite 250000) (Finite 500),
            tx_from =
              [\<lparr>utxo_txid = ''t2'', utxo_vout = 1, utxo_satoshis = 1000,
                utxo_token = Some \<lparr>tok_category = ''c1'', tok_amount = 0,
                  tok_nft = Some \<lparr>nft_capability = CapNone,
                                   nft_commitment = ''00000000000000000007a120''\<rparr>\<rparr>\<rparr>],
            tx_to =
              [\<lparr>out_to = ''owner'', out_amount = 1000,
                out_token = Some \<lparr>tok_category = ''c1'', tok_amount = 0,
                  tok_nft = Some \<lparr>nft_capability = CapNone,
                                   nft_commitment = ''00000000000030d40007a120''\<rparr>\<rparr>\<rparr>]\<rparr>
   \<and> parseYTCommitment ''00000000000030d40007a120''
     = Inr \<lparr>yt_yieldAccrued = 12500, yt_expiry = Finite 500000\<rparr>"
proof -
  let ?yt = "\<lparr>utxo_txid = ''t2'', utxo_vout = 1, utxo_satoshis = 1000,
       utxo_token = Some \<lparr>tok_category = ''c1'', tok_amount = 0,
         tok_nft = Some \<lparr>nft_capability = CapNone,
                          nft_commitment = ''00000000000000000007a120''\<rparr>\<rparr>\<rparr>"
  have h1: "''t2'' \<noteq> []" by simp
  have h2: "find (isNftAt ''t2'' (Finite 1)) [?yt] = Some ?yt"
    by (simp add: ledger_eval)
  have h3: "parseYTCommitment (commitmentOf ?yt)
      = Inr \<lparr>yt_yieldAccrued = 0, yt_expiry = Finite 500000\<rparr>"
    by (simp add: ledger_eval codec_eval)
  have h4: "(0::int) \<le> 250000" and h5: "(250000::int) < 500000"
    and h6: "(0::int) \<le> 500" and h7: "(250000::int) * 500 < 2 ^ 53"
    and h8: "(10000::int) dvd 250000 * 500" and h9: "(0::int) + 250000 * 500 div 10000 < 2 ^ 64"
    by simp_all
  show ?thesis
    using claimYield_before_expiry [OF h1 h2 h3 h4 h5 h6 h7 h8 h9, of "''owner''"]
    by (simp add: ledger_eval beBytes_numeral toHex_def toHexByte_def)
qed

lemma round_large_product: "toNumber 144117627415950000 = 144117627415950016"
  by (simp add: toNumber_def bitLength.simps Let_def)

lemma quotient_large_product:
  "bigIntOfQuotient (Finite 144117627415950016) 10000 = Inl RangeError"
  by (simp only: bigIntOfQuotient.simps Let_def) (simp add: bitLength.simps)

text \<open>
  C4 as stated fails, in each of these ways. (1) At \<open>currentTime = 1\<close> and 500 basis points
  the quotient \<open>0.05\<close> is not an integer and the claim ends in a \<open>RangeError\<close> instead of a
  YT with yield \<open>Y + floor(0.05)\<close>. (2) The elapsed time is not capped by the time left
  since the last claim: a YT with expiry 500000 claimed at 250000 and again at 400000
  reaches 32500, above the \<open>12500 + (500000 - 250000) * 500 / 10000 = 25000\<close> that the cap
  would allow. (3) A negative rate decreases the yield: 12500 becomes 0 at time 250000 and
  \<open>-500\<close> basis points. (4) A YT whose yield is \<open>2^64 - 1\<close> cannot accrue: the new yield does
  not fit 8 bytes and the claim ends in a \<open>RangeError\<close>. (5) Above \<open>2^53\<close> the product is
  rounded: at time 4294967290 and rate 33555000 it is a multiple of 10000, its double is
  not, and the claim ends in a \<open>RangeError\<close>.
\<close>

theorem claimYield_before_expiry_counterexample:
  "handleClaimYield
     [\<lparr>utxo_txid = ''t2'', utxo_vout = 1, utxo_satoshis = 1000,
       utxo_token = Some \<lparr>tok_category = ''c1'', tok_amount = 0,
         tok_nft = Some \<lparr>nft_capability = CapNone,
                          nft_commitment = ''00000000000000000007a120''\<rparr>\<rparr>\<rparr>]
     ''t2'' (Finite 1) (Finite 1) (Finite 500) ''owner''
     = Inl RangeError
   \<and> claimSequence
     \<lparr>utxo_txid = ''t2'', utxo_vout = 1, utxo_satoshis = 1000,
       utxo_token = Some \<lparr>tok_category = ''c1'', tok_amount = 0,
         tok_nft = Some \<lparr>nft_capability = CapNone,
                          nft_commitment = ''00000000000000000007a120''\<rparr>\<rparr>\<rparr>
     [(''t3'', 250000), (''t4'', 400000)] (Finite 500) ''owner''
     = Inr [\<lparr>utxo_txid = ''t3'', utxo_vout = 0, utxo_satoshis = 1000,
             utxo_token = Some \<lparr>tok_category = ''c1'', tok_amount = 0,
               tok_nft = Some \<lparr>nft_capability = CapNone,
                                nft_commitment = ''00000000000030d40007a120''\<rparr>\<rparr>\<rparr>,
            \<lparr>utxo_txid = ''t4'', utxo_vout = 0, utxo_satoshis = 1000,
             utxo_token = Some \<lparr>tok_category = ''c1'', tok_amount = 0,
               tok_nft = Some \<lparr>nft_capability = CapNone,
                                nft_commitment = ''0000000000007ef40007a120''\<rparr>\<rparr>\<rparr>]
   \<and> parseYTCommitment ''00000000000030d40007a120''
     = Inr \<lparr>yt_yieldAccrued = 12500, yt_expiry = Finite 500000\<rparr>
   \<and> parseYTCommitment ''0000000000007ef40007a120''
     = Inr \<lparr>yt_yieldAccrued = 32500, yt_expiry = Finite 500000\<rparr>
   \<and> (32500::int) > 12500 + (500000 - 250000) * 500 div 10000
   \<and> handleClaimYield
     [\<lparr>utxo_txid = ''t3'', utxo_vout = 0, utxo_satoshis = 1000,
       utxo_token = Some \<lparr>tok_category = ''c1'', tok_amount = 0,
         tok_nft = Some \<lparr>nft_capability = CapNone,
                          nft_commitment = ''00000000000030d40007a120''\<rparr>\<rparr>\<rparr>]
     ''t3'' (Finite 0) (Finite 250000) (Finite (- 500)) ''owner''
     = Inr \<lparr>tx_call = ClaimYield (Finite 250000) (Finite (- 500)),
            tx_from =
              [\<lparr>utxo_txid = ''t3'', utxo_vout = 0, utxo_satoshis = 1000,
                utxo_token = Some \<lparr>tok_category = ''c1'', tok_amount = 0,
                  tok_nft = Some \<lparr>nft_capability = CapNone,
                                   nft_commitment = ''00000000000030d40007a120''\<rparr>\<rparr>\<rparr>],
            tx_to =
              [\<lparr>out_to = ''owner'', out_amount = 1000,
                out_token = Some \<lparr>tok_category = ''c1'', tok_amount = 0,
                  tok_nft = Some \<lparr>nft_capability = CapNone,
                                   nft_commitment = ''00000000000000000007a120''\<rparr>\<rparr>\<rparr>]\<rparr>
   \<and> parseYTCommitment ''ffffffffffffffff0007a120''
     = Inr \<lparr>yt_yieldAccrued = 18446744073709551615, yt_expiry = Finite 500000\<rparr>
   \<and> handleClaimYield
     [\<lparr>utxo_txid = ''t2'', utxo_vout = 1, utxo_satoshis = 1000,
       utxo_token = Some \<lparr>tok_category = ''c1'', tok_amount = 0,
         tok_nft = Some \<lparr>nft_capability = CapNone,
                          nft_commitment = ''ffffffffffffffff0007a120''\<rparr>\<rparr>\<rparr>]
     ''t2'' (Finite 1) (Finite 250000) (Finite 500) ''owner''
     = Inl RangeError
   \<and> (10000::int) dvd 4294967290 * 33555000
   \<and> handleClaimYield
     [\<lparr>utxo_txid = ''t2'', utxo_vout = 1, utxo_satoshis = 1000,
       utxo_token = Some \<lparr>tok_category = ''c1'', tok_amount = 0,
         tok_nft = Some \<lparr>nft_capability = CapNone,
                          nft_commitment = ''0000000000000000ffffffff''\<rparr>\<rparr>\<rparr>]
     ''t2'' (Finite 1) (Finite 4294967290) (Finite 33555000) ''owner''
     = Inl RangeError"
  by (simp add: handleClaimYield_def codec_eval ledger_eval bigIntOfQuotient_safe
      round_large_product quotient_large_product)

text \<open>
  C9, as the code has it. For a YT with accrued yield \<open>Y\<close> and expiry \<open>E\<close>, a rate
  \<open>yieldRate \<ge> 0\<close> and claims at non-decreasing times \<open>0 \<le> n < E\<close>: if all the claims
  go through, every YT they create carries the expiry \<open>E\<close> and the accrued yields,
  starting from \<open>Y\<close>, never decrease. A claim on the last YT at any time \<open>t \<ge> E\<close> pays
  out exactly the yield accrued so far and creates no token; nothing is added at expiry.
\<close>

theorem claimYield_sequence_monotone:
  assumes "utxo_txid yt \<noteq> []" and "capabilityOf yt = Some CapNone"
    and "parseYTCommitment (commitmentOf yt)
           = Inr \<lparr>yt_yieldAccrued = Y, yt_expiry = Finite E\<rparr>"
    and "0 \<le> yieldRate"
    and "\<forall>(txid, n) \<in> set steps. txid \<noteq> [] \<and> 0 \<le> n \<and> n < E"
    and "sorted (map snd steps)"
    and "claimSequence yt steps (Finite yieldRate) ownerAddress = Inr yts"
  shows "\<exists>ys. list_all2 (\<lambda>u y. parseYTCommitment (commitmentOf u)
                              = Inr \<lparr>yt_yieldAccrued = y, yt_expiry = Finite E\<rparr>) yts ys
            \<and> sorted (Y # ys)
            \<and> (\<forall>t\<ge>E. handleClaimYield [last (yt # yts)] (utxo_txid (last (yt # yts)))
                         (Finite (utxo_vout (last (yt # yts)))) (Finite t) (Finite yieldRate)
                         ownerAddress
                       = Inr \<lparr>tx_call = ClaimYield (Finite t) (Finite yieldRate),
                              tx_from = [nftInput (last (yt # yts))],
                              tx_to = [\<lparr>out_to = ownerAddress, out_amount = last (Y # ys),
                                        out_token = None\<rparr>]\<rparr>)"
proof -
  let ?P = "\<lambda>u y. utxo_txid u \<noteq> [] \<and> capabilityOf u = Some CapNone
                     \<and> parseYTCommitment (commitmentOf u)
                         = Inr \<lparr>yt_yieldAccrued = y, yt_expiry = Finite E\<rparr>"
  obtain ys where ys: "list_all2 ?P yts ys" and sorted: "sorted (Y # ys)"
    using claimSequence_yields [OF assms(4) assms(7) assms(3) assms(5)] by blast
  have all: "list_all2 ?P (yt # yts) (Y # ys)"
    using ys assms(1,2,3) by simp
  have lastP: "?P (last (yt # yts)) (last (Y # ys))"
    using all by (rule list_all2_last) simp
  have expiry: "\<forall>t\<ge>E. handleClaimYield [last (yt # yts)] (utxo_txid (last (yt # yts)))
                         (Finite (utxo_vout (last (yt # yts)))) (Finite t) (Finite yieldRate)
                         ownerAddress
                       = Inr \<lparr>tx_call = ClaimYield (Finite t) (Finite yieldRate),
                              tx_from = [nftInput (last (yt # yts))],
                              tx_to = [\<lparr>out_to = ownerAddress, out_amount = last (Y # ys),
                                        out_token = None\<rparr>]\<rparr>"
    using lastP by (intro allI impI claim_at_expiry) simp_all
  have "list_all2 (\<lambda>u y. parseYTCommitment (commitmentOf u)
                              = Inr \<lparr>yt_yieldAccrued = y, yt_expiry = Finite E\<rparr>) yts ys"
    using ys by (rule list_all2_mono) simp
  then show ?thesis
    using sorted expiry by blast
qed

text \<open>
  C9, as the code has it, at a fresh YT with expiry 500000 claimed at 250000 and at 400000
  at 500 basis points: the two claims go through, the yields are 0, 12500, 32500, and the
  claim at time 500000 pays out 32500.
\<close>

theorem claimYield_sequence_monotone_witness:
  "claimSequence
     \<lparr>utxo_txid = ''t2'', utxo_vout = 1, utxo_satoshis = 1000,
       utxo_token = Some \<lparr>tok_category = ''c1'', tok_amount = 0,
         tok_nft = Some \<lparr>nft_capability = CapNone,
                          nft_commitment = ''00000000000000000007a120''\<rparr>\<rparr>\<rparr>
     [(''t3'', 250000), (''t4'', 400000)] (Finite 500) ''owner''
     = Inr [\<lparr>utxo_txid = ''t3'', utxo_vout = 0, utxo_satoshis = 1000,
             utxo_token = Some \<lparr>tok_category = ''c1'', tok_amount = 0,
               tok_nft = Some \<lparr>nft_capability = CapNone,
                                nft_commitment = ''00000000000030d40007a120''\<rparr>\<rparr>\<rparr>,
            \<lparr>utxo_txid = ''t4'', utxo_vout = 0, utxo_satoshis = 1000,
             utxo_token = Some \<lparr>tok_category = ''c1'', tok_amount = 0,
               tok_nft = Some \<lparr>nft_capability = CapNone,
                                nft_commitment = ''0000000000007ef40007a120''\<rparr>\<rparr>\<rparr>]
   \<and> handleClaimYield
         [\<lparr>utxo_txid = ''t4'', utxo_vout = 0, utxo_satoshis = 1000,
           utxo_token = Some \<lparr>tok_category = ''c1'', tok_amount = 0,
             tok_nft = Some \<lparr>nft_capability = CapNone,
                              nft_commitment = ''0000000000007ef40007a120''\<rparr>\<rparr>\<rparr>]
         ''t4'' (Finite 0) (Finite 500000) (Finite 500) ''owner''
       = Inr \<lparr>tx_call = ClaimYield (Finite 500000) (Finite 500),
              tx_from =
                [\<lparr>utxo_txid = ''t4'', utxo_vout = 0, utxo_satoshis = 1000,
                  utxo_token = Some \<lparr>tok_category = ''c1'', tok_amount = 0,
                    tok_nft = Some \<lparr>nft_capability = CapNone,
                                     nft_commitment = ''0000000000007ef40007a120''\<rparr>\<rparr>\<rparr>],
              tx_to = [\<lparr>out_to = ''owner'', out_amount = 32500, out_token = None\<rparr>]\<rparr>"
proof -
  let ?yt = "\<lparr>utxo_txid = ''t2'', utxo_vout = 1, utxo_satoshis = 1000,
       utxo_token = Some \<lparr>tok_category = ''c1'', tok_amount = 0,
         tok_nft = Some \<lparr>nft_capability = CapNone,
                          nft_commitment = ''00000000000000000007a120''\<rparr>\<rparr>\<rparr>"
  let ?u3 = "\<lparr>utxo_txid = ''t3'', utxo_vout = 0, utxo_satoshis = 1000,
             utxo_token = Some \<lparr>tok_category = ''c1'', tok_amount = 0,
               tok_nft = Some \<lparr>nft_capability = CapNone,
                                nft_commitment = ''00000000000030d40007a120''\<rparr>\<rparr>\<rparr>"
  let ?u4 = "\<lparr>utxo_txid = ''t4'', utxo_vout = 0, utxo_satoshis = 1000,
             utxo_token = Some \<lparr>tok_category = ''c1'', tok_amount = 0,
               tok_nft = Some \<lparr>nft_capability = CapNone,
                                nft_commitment = ''0000000000007ef40007a120''\<rparr>\<rparr>\<rparr>"
  let ?steps = "[(''t3'', 250000), (''t4'', 400000)] :: (string \<times> int) list"
  have h1: "utxo_txid ?yt \<noteq> []" by simp
  have h2: "capabilityOf ?yt = Some CapNone" by (simp add: ledger_eval)
  have h3: "parseYTCommitment (commitmentOf ?yt)
      = Inr \<lparr>yt_yieldAccrued = 0, yt_expiry = Finite 500000\<rparr>"
    by (simp add: ledger_eval codec_eval)
  have h4: "(0::int) \<le> 500" by simp
  have h5: "\<forall>(txid, n) \<in> set ?steps. txid \<noteq> [] \<and> 0 \<le> n \<and> n < 500000"
    by simp
  have h6: "sorted (map snd ?steps)" by simp
  have h7: "claimSequence ?yt ?steps (Finite 500) ''owner'' = Inr [?u3, ?u4]"
    by (simp add: handleClaimYield_def codec_eval ledger_eval bigIntOfQuotient_safe)
  have p3: "parseYTCommitment (commitmentOf ?u3)
      = Inr \<lparr>yt_yieldAccrued = 12500, yt_expiry = Finite 500000\<rparr>"
    and p4: "parseYTCommitment (commitmentOf ?u4)
      = Inr \<lparr>yt_yieldAccrued = 32500, yt_expiry = Finite 500000\<rparr>"
    by (simp_all add: ledger_eval codec_eval)
  obtain ys where ys: "list_all2 (\<lambda>u y. parseYTCommitment (commitmentOf u)
                              = Inr \<lparr>yt_yieldAccrued = y, yt_expiry = Finite 500000\<rparr>)
                          [?u3, ?u4] ys"
    and paid: "\<forall>t\<ge>500000. handleClaimYield [last [?yt, ?u3, ?u4]]
                   (utxo_txid (last [?yt, ?u3, ?u4]))
                   (Finite (utxo_vout (last [?yt, ?u3, ?u4]))) (Finite t) (Finite 500) ''owner''
                 = Inr \<lparr>tx_call = ClaimYield (Finite t) (Finite 500),
                        tx_from = [nftInput (last [?yt, ?u3, ?u4])],
                        tx_to = [\<lparr>out_to = ''owner'', out_amount = last (0 # ys),
                                  out_token = None\<rparr>]\<rparr>"
    using claimYield_sequence_monotone [OF h1 h2 h3 h4 h5 h6 h7] by blast
  have "ys = [12500, 32500]"
    using ys by (auto simp: list_all2_Cons1 p3 p4)
  then have "handleClaimYield [?u4] ''t4'' (Finite 0) (Finite 500000) (Finite 500) ''owner''
      = Inr \<lparr>tx_call = ClaimYield (Finite 500000) (Finite 500),
             tx_from = [nftInput ?u4],
             tx_to = [\<lparr>out_to = ''owner'', out_amount = 32500, out_token = None\<rparr>]\<rparr>"
    using paid by simp
  then show ?thesis
    using h7 by (simp add: nftInput_def category_def commitmentOf_def nftOf_def)
qed

text \<open>
  C9 as stated fails. The value reached at \<open>currentTime = expiry\<close> is what earlier claims
  accrued, not the full-term yield: a fresh YT with expiry 500000 claimed at time 500000 at
  500 basis points pays out 0, where the full term at that rate gives 25000. And the
  accrued yield decreases when the rate or the time is negative: a YT with yield 12500
  claimed at time 250000 and \<open>-500\<close> basis points, or at time \<open>-250000\<close> and 500 basis
  points, comes back with yield 0.
\<close>

theorem claimYield_sequence_monotone_counterexample:
  "handleClaimYield
     [\<lparr>utxo_txid = ''t2'', utxo_vout = 1, utxo_satoshis = 1000,
       utxo_token = Some \<lparr>tok_category = ''c1'', tok_amount = 0,
         tok_nft = Some \<lparr>nft_capability = CapNone,
                          nft_commitment = ''00000000000000000007a120''\<rparr>\<rparr>\<rparr>]
     ''t2'' (Finite 1) (Finite 500000) (Finite 500) ''owner''
     = Inr \<lparr>tx_call = ClaimYield (Finite 500000) (Finite 500),
            tx_from =
              [\<lparr>utxo_txid = ''t2'', utxo_vout = 1, utxo_satoshis = 1000,
                utxo_token = Some \<lparr>tok_category = ''c1'', tok_amount = 0,
                  tok_nft = Some \<lparr>nft_capability = CapNone,
                                   nft_commitment = ''00000000000000000007a120''\<rparr>\<rparr>\<rparr>],
            tx_to = [\<lparr>out_to = ''owner'', out_amount = 0, out_token = None\<rparr>]\<rparr>
   \<and> (0::int) < 500000 * 500 div 10000
   \<and> claimSequence
     \<lparr>utxo_txid = ''t3'', utxo_vout = 0, utxo_satoshis = 1000,
       utxo_token = Some \<lparr>tok_category = ''c1'', tok_amount = 0,
         tok_nft = Some \<lparr>nft_capability = CapNone,
                          nft_commitment = ''00000000000030d40007a120''\<rparr>\<rparr>\<rparr>
     [(''t4'', 250000)] (Finite (- 500)) ''owner''
     = Inr [\<lparr>utxo_txid = ''t4'', utxo_vout = 0, utxo_satoshis = 1000,
             utxo_token = Some \<lparr>tok_category = ''c1'', tok_amount = 0,
               tok_nft = Some \<lparr>nft_capability = CapNone,
                                nft_commitment = ''00000000000000000007a120''\<rparr>\<rparr>\<rparr>]
   \<and> claimSequence
     \<lparr>utxo_txid = ''t3'', utxo_vout = 0, utxo_satoshis = 1000,
       utxo_token = Some \<lparr>tok_category = ''c1'', tok_amount = 0,
         tok_nft = Some \<lparr>nft_capability = CapNone,
                          nft_commitment = ''00000000000030d40007a120''\<rparr>\<rparr>\<rparr>
     [(''t4'', - 250000)] (Finite 500) ''owner''
     = Inr [\<lparr>utxo_txid = ''t4'', utxo_vout = 0, utxo_satoshis = 1000,
             utxo_token = Some \<lparr>tok_category = ''c1'', tok_amount = 0,
               tok_nft = Some \<lparr>nft_capability = CapNone,
                                nft_commitment = ''00000000000000000007a120''\<rparr>\<rparr>\<rparr>]
   \<and> parseYTCommitment ''00000000000030d40007a120''
     = Inr \<lparr>yt_yieldAccrued = 12500, yt_expiry = Finite 500000\<rparr>
   \<and> parseYTCommitment ''00000000000000000007a120''
     = Inr \<lparr>yt_yieldAccrued = 0, yt_expiry = Finite 500000\<rparr>"
  by (simp add: handleClaimYield_def codec_eval ledger_eval bigIntOfQuotient_safe)

section \<open>Swap quote\<close>

text \<open>
  C6. The swap quote is \<open>amountIn\<close> minus the fee \<open>amountIn * feeBps / 10000\<close>, where the
  division truncates towards zero: the fee has the sign of the product and the magnitude
  \<open>\<bar>amountIn * feeBps\<bar> div 10000\<close>, which is the floor of the quotient whenever the product
  is not negative. For \<open>amountIn = 10000\<close> and \<open>feeBps = 30\<close> the quote is \<open>9970\<close>.
\<close>

theorem swap_quote_fee:
  "calculateSwapOutput amountIn zeroForOne feeBps
     = amountIn - sgn (amountIn * feeBps) * (\<bar>amountIn * feeBps\<bar> div 10000)
   \<and> (0 \<le> amountIn * feeBps \<longrightarrow>
        calculateSwapOutput amountIn zeroForOne feeBps = amountIn - (amountIn * feeBps) div 10000)
   \<and> calculateSwapOutput 10000 zeroForOne 30 = 9970"
proof -
  have trunc: "(amountIn * feeBps) sdiv 10000
      = sgn (amountIn * feeBps) * (\<bar>amountIn * feeBps\<bar> div 10000)"
    by (simp add: signed_divide_int_def)
  have floor_eq: "0 \<le> p \<Longrightarrow> sgn p * (\<bar>p\<bar> div 10000) = p div 10000" for p :: int
    by (cases "p = 0") (simp_all add: sgn_if)
  have nonneg: "0 \<le> amountIn * feeBps \<Longrightarrow>
      sgn (amountIn * feeBps) * (\<bar>amountIn * feeBps\<bar> div 10000) = (amountIn * feeBps) div 10000"
    by (rule floor_eq)
  have ex: "(10000 * 30 :: int) sdiv 10000 = 30"
    by (simp add: signed_divide_int_def)
  show ?thesis
    using trunc nonneg ex by (simp add: calculateSwapOutput_def Let_def)
qed

text \<open>C6 at an input of 20000 and 25 basis points: the fee is 50 and the quote 19950.\<close>

theorem swap_quote_fee_witness:
  "(0::int) \<le> 20000 * 25
   \<and> calculateSwapOutput 20000 True 25 = 20000 - (20000 * 25) div 10000
   \<and> calculateSwapOutput 20000 True 25 = 19950"
  using swap_quote_fee [of 20000 True 25] by simp

text \<open>
  C10. The quote does not depend on the trade direction: the same \<open>amountIn\<close> and fee give
  the same output for \<open>zeroForOne = true\<close> and \<open>zeroForOne = false\<close>.
\<close>

theorem swap_quote_direction_independent:
  "calculateSwapOutput amountIn True fee = calculateSwapOutput amountIn False fee"
  by (simp add: calculateSwapOutput_def)

end
